theory Spec2Isabelle
  imports Complex_Main "HOL-Library.Word"
begin

section \<open>JavaScript values, strings and objects\<close>

text \<open>
  The server is \<^verbatim>\<open>server/index.js\<close>, an Express application with three API routes
  and a static fallback. Its handlers are embedded below as functions from the server's
  state and a request to the new state, the response and the list of outside calls made
  on the way.

  Strings are \<^typ>\<open>string\<close>: sequences of code units below 256. Bytes of an upload are
  \<^typ>\<open>8 word\<close>.
\<close>

type_synonym byte = "8 word"

datatype js_error = ENOENT | PdfError | TypeError

text \<open>
  A form field or query parameter as the parser hands it to the handler: not sent
  (\<^verbatim>\<open>undefined\<close>), a string, or a non-string value built from bracketed field names.
  Of a non-string value the handlers use only its conversion to a string: an array of
  strings or an ordinary object has one (\<open>Struct\<close>, with that string); an object
  without a prototype, as the form parser builds for \<^verbatim>\<open>name[key]=value\<close>, or an array
  that holds one, has none (\<open>Bare\<close>), and converting it throws a \<^verbatim>\<open>TypeError\<close>.
\<close>

datatype field = Absent | Text string | Struct string | Bare

fun truthy :: "field \<Rightarrow> bool" where
  "truthy Absent = False"
| "truthy (Text t) = (t \<noteq> [])"
| "truthy (Struct k) = True"
| "truthy Bare = True"

fun typeof :: "field \<Rightarrow> string" where
  "typeof Absent = ''undefined''"
| "typeof (Text t) = ''string''"
| "typeof (Struct k) = ''object''"
| "typeof Bare = ''object''"

text \<open>String conversion, as done by a template literal and by a property access.\<close>

fun to_string :: "field \<Rightarrow> js_error + string" where
  "to_string Absent = Inr ''undefined''"
| "to_string (Text t) = Inr t"
| "to_string (Struct k) = Inr k"
| "to_string Bare = Inl TypeError"

text \<open>White space and line terminators that \<^verbatim>\<open>String.prototype.trim\<close> removes,
  among the code units below 256: TAB, LF, VT, FF, CR, SP and NBSP.\<close>

definition isWhiteSpace :: "char \<Rightarrow> bool" where
  "isWhiteSpace c = ((of_char c :: nat) \<in> {9, 10, 11, 12, 13, 32, 160})"

definition trim :: "string \<Rightarrow> string" where
  "trim t = rev (dropWhile isWhiteSpace (rev (dropWhile isWhiteSpace t)))"

text \<open>\<^verbatim>\<open>String.prototype.toLowerCase\<close> on code units below 256: A-Z and the
  accented capitals 0xC0-0xDE (without the multiplication sign 0xD7) move up by 32.\<close>

definition lower_char :: "char \<Rightarrow> char" where
  "lower_char c =
     (let n = (of_char c :: nat) in
      if (65 \<le> n \<and> n \<le> 90) \<or> (192 \<le> n \<and> n \<le> 222 \<and> n \<noteq> 215)
      then char_of (n + 32) else c)"

definition toLowerCase :: "string \<Rightarrow> string" where
  "toLowerCase t = map lower_char t"

definition startsWith :: "string \<Rightarrow> string \<Rightarrow> bool" where
  "startsWith t p = (take (length p) t = p)"

text \<open>
  \<^verbatim>\<open>path.extname\<close> (POSIX variant of Node's \<^verbatim>\<open>path\<close> module). The library scans the
  path from its last character to its first, with five local variables.
\<close>

record ext_scan =
  startDot :: int
  startPart :: int
  endPos :: int
  matchedSlash :: bool
  preDotState :: int

definition ext_scan_init :: ext_scan where
  "ext_scan_init =
     \<lparr>startDot = - 1, startPart = 0, endPos = - 1, matchedSlash = True, preDotState = 0\<rparr>"

text \<open>\<open>extname_loop p k st\<close> runs the loop body for \<open>i = k - 1\<close> down to \<open>0\<close>.\<close>

fun extname_loop :: "string \<Rightarrow> nat \<Rightarrow> ext_scan \<Rightarrow> ext_scan" where
  "extname_loop p 0 st = st"
| "extname_loop p (Suc i) st =
     (let code = p ! i in
      if code = CHR ''/'' then
        (if \<not> matchedSlash st then st\<lparr>startPart := int i + 1\<rparr>
         else extname_loop p i st)
      else
        (let st1 = (if endPos st = - 1
                    then st\<lparr>matchedSlash := False, endPos := int i + 1\<rparr> else st);
             st2 = (if code = CHR ''.'' then
                      (if startDot st1 = - 1 then st1\<lparr>startDot := int i\<rparr>
                       else if preDotState st1 \<noteq> 1 then st1\<lparr>preDotState := 1\<rparr>
                       else st1)
                    else if startDot st1 \<noteq> - 1 then st1\<lparr>preDotState := - 1\<rparr>
                    else st1)
         in extname_loop p i st2))"

definition extname :: "string \<Rightarrow> string" where
  "extname p =
     (let st = extname_loop p (length p) ext_scan_init in
      if startDot st = - 1 \<or> endPos st = - 1 \<or> preDotState st = 0 \<or>
         (preDotState st = 1 \<and> startDot st = endPos st - 1 \<and> startDot st = startPart st + 1)
      then []
      else take (nat (endPos st - startDot st)) (drop (nat (startDot st)) p))"

text \<open>
  A plain object created by \<^verbatim>\<open>{}\<close> into which only the value \<^verbatim>\<open>true\<close> is ever
  stored: it is given by the set of its own property names. A read that finds no own
  property continues in \<^verbatim>\<open>Object.prototype\<close>, whose properties are functions, or the
  prototype object itself for \<^verbatim>\<open>__proto__\<close>, hence all truthy.
\<close>

type_synonym js_object = "string set"

definition Object_prototype :: "string list" where
  "Object_prototype =
     [''constructor'', ''__proto__'', ''hasOwnProperty'', ''isPrototypeOf'',
      ''propertyIsEnumerable'', ''toLocaleString'', ''toString'', ''valueOf'',
      ''__defineGetter__'', ''__defineSetter__'', ''__lookupGetter__'', ''__lookupSetter__'']"

text \<open>Truth value of \<^verbatim>\<open>obj[key]\<close>.\<close>

definition get_truthy :: "js_object \<Rightarrow> string \<Rightarrow> bool" where
  "get_truthy obj k = (if k \<in> obj then True else k \<in> set Object_prototype)"

text \<open>\<^verbatim>\<open>obj[key] = true\<close>. Assigning a primitive to \<^verbatim>\<open>__proto__\<close> runs the inherited
  setter, which ignores it; every other key becomes an own property.\<close>

definition set_true :: "js_object \<Rightarrow> string \<Rightarrow> js_object" where
  "set_true obj k = (if k = ''__proto__'' then obj else insert k obj)"

section \<open>Requests, responses, outside services\<close>

text \<open>A JavaScript number, as far as the price computation needs it.\<close>

datatype js_number = NaN | PlusInfinity | MinusInfinity | Finite rat

datatype body =
    Error string
  | ErrorDetails string string
  | Answer string
  | Paid bool
  | Checkout string string
  | IndexHtml

record response =
  status :: nat
  json :: body

text \<open>What a handler does with a request: it sends a response, or it throws and sends
  none of its own.\<close>

datatype outcome = Sent response | Uncaught js_error

record chat_request =
  model :: string
  messages :: "(string \<times> string) list"
  temperature :: rat
  max_tokens :: nat

datatype message = Message (content: "string option")
datatype choice = Choice (message: "message option")
datatype completion = Completion (choices: "choice list option")

datatype line_item = Price string | PriceData string js_number

record checkout_params =
  line_items :: "line_item list"
  success_url :: string
  cancel_url :: string

text \<open>Calls that leave the handler, in the order made.\<close>

datatype effect =
    ReadFile string
  | Unlink string
  | PdfParse "byte list"
  | ChatCreate chat_request
  | SessionsRetrieve field
  | SessionsCreate checkout_params

fun stripe_call :: "effect \<Rightarrow> bool" where
  "stripe_call (SessionsRetrieve _) = True"
| "stripe_call (SessionsCreate _) = True"
| "stripe_call _ = False"

fun extraction_call :: "effect \<Rightarrow> bool" where
  "extraction_call (ReadFile _) = True"
| "extraction_call (PdfParse _) = True"
| "extraction_call _ = False"

fun completion_call :: "effect \<Rightarrow> bool" where
  "completion_call (ChatCreate _) = True"
| "completion_call _ = False"

text \<open>
  What lies outside the handler at one request: the process environment, the name the
  upload middleware picks for the temporary file, and the answers of the libraries and
  providers (\<open>None\<close> or \<open>Inl\<close> when the call throws). \<open>Number\<close> is the conversion
  of a string to a number by the runtime.
\<close>

record world =
  OPENAI_API_KEY :: "string option"
  DOMAIN :: "string option"
  PORT :: string
  STRIPE_PRICE_ID :: "string option"
  STRIPE_AMOUNT :: "string option"
  STRIPE_CURRENCY :: "string option"
  Number :: "string \<Rightarrow> js_number"
  tmp_path :: string
  pdf :: "byte list \<Rightarrow> string option"
  utf8 :: "byte list \<Rightarrow> string"
  chat_create :: "chat_request \<Rightarrow> completion option"
  sessions_retrieve :: "field \<Rightarrow> string option"
  sessions_create :: "checkout_params \<Rightarrow> string + (string \<times> string)"

text \<open>The server: whether the Stripe client was created at start-up, the in-memory
  object \<^verbatim>\<open>paidSessions\<close>, and the files on disk.\<close>

record server =
  stripe :: bool
  paidSessions :: js_object
  disk :: "string \<rightharpoonup> byte list"

record upload_file =
  originalname :: string
  path :: string

text \<open>The request as the handler sees it; \<^verbatim>\<open>req.body\<close> is \<open>None\<close> when nothing has
  set it.\<close>

record request =
  req_file :: "upload_file option"
  req_body :: "(string \<Rightarrow> field) option"

text \<open>A well-formed multipart body on the wire: the part named \<^verbatim>\<open>contract\<close> (file
  name and bytes), if any, and the other fields. A request to the route carries such a
  body, or a body of another kind, or none.\<close>

record multipart =
  contract :: "(string \<times> byte list) option"
  form :: "string \<Rightarrow> field"

datatype post_body = Multipart multipart | NotMultipart

definition some_string :: "string option \<Rightarrow> bool" where
  "some_string v = (case v of None \<Rightarrow> False | Some t \<Rightarrow> t \<noteq> [])"

text \<open>\<^verbatim>\<open>v || fallback\<close> for an environment variable.\<close>

definition or_else :: "string option \<Rightarrow> string \<Rightarrow> string" where
  "or_else v fallback = (case v of None \<Rightarrow> fallback | Some t \<Rightarrow> if t = [] then fallback else t)"

definition readFileSync :: "(string \<rightharpoonup> byte list) \<Rightarrow> string \<Rightarrow> js_error + byte list" where
  "readFileSync d p = (case d p of None \<Rightarrow> Inl ENOENT | Some bs \<Rightarrow> Inr bs)"

definition unlinkSync ::
  "(string \<rightharpoonup> byte list) \<Rightarrow> string \<Rightarrow> js_error + (string \<rightharpoonup> byte list)" where
  "unlinkSync d p = (case d p of None \<Rightarrow> Inl ENOENT | Some bs \<Rightarrow> Inr (d(p := None)))"

text \<open>\<^verbatim>\<open>try { fs.unlinkSync(file.path); } catch (err) {}\<close>\<close>

definition try_unlink :: "(string \<rightharpoonup> byte list) \<Rightarrow> string \<Rightarrow> (string \<rightharpoonup> byte list)" where
  "try_unlink d p = (case unlinkSync d p of Inl e \<Rightarrow> d | Inr d' \<Rightarrow> d')"

text \<open>The file name of a part as the multipart parser reports it: what follows the last
  slash or backslash, and nothing for the names \<^verbatim>\<open>.\<close> and \<^verbatim>\<open>..\<close>.\<close>

definition basename :: "string \<Rightarrow> string" where
  "basename p =
     (let r = rev (takeWhile (\<lambda>c. c \<noteq> CHR ''/'' \<and> c \<noteq> CHR 0x5C) (rev p))
      in if r = ''..'' \<or> r = ''.'' then [] else r)"

text \<open>
  \<^verbatim>\<open>upload.single('contract')\<close> with a destination directory. For a request that is
  not multipart the middleware passes on at once and sets neither \<^verbatim>\<open>req.body\<close> nor
  \<^verbatim>\<open>req.file\<close>. For a multipart request it sets \<^verbatim>\<open>req.body\<close> to the fields, skips
  a file part whose name is empty, and stores any other under a fresh name, which with
  the name of the part becomes \<^verbatim>\<open>req.file\<close>.
\<close>

definition upload_single ::
  "string \<Rightarrow> (string \<rightharpoonup> byte list) \<Rightarrow> post_body \<Rightarrow> (string \<rightharpoonup> byte list) \<times> request" where
  "upload_single tmp d b =
     (case b of
        NotMultipart \<Rightarrow> (d, \<lparr>req_file = None, req_body = None\<rparr>)
      | Multipart mp \<Rightarrow>
          (case contract mp of
             None \<Rightarrow> (d, \<lparr>req_file = None, req_body = Some (form mp)\<rparr>)
           | Some (filename, bytes) \<Rightarrow>
               if basename filename = []
               then (d, \<lparr>req_file = None, req_body = Some (form mp)\<rparr>)
               else (d(tmp \<mapsto> bytes),
                     \<lparr>req_file = Some \<lparr>originalname = basename filename, path = tmp\<rparr>,
                      req_body = Some (form mp)\<rparr>)))"

section \<open>The handlers\<close>

text \<open>
  Lines 78-88, the body of the \<^verbatim>\<open>try\<close> block of \<^verbatim>\<open>POST /api/query\<close>: the extension
  of the uploaded name in lower case, the bytes of the temporary file, and the PDF parser
  or the UTF-8 decoder. The result is the contract text, or the exception that the
  \<^verbatim>\<open>catch\<close> block receives, with the calls made.
\<close>

definition extractText ::
  "world \<Rightarrow> (string \<rightharpoonup> byte list) \<Rightarrow> upload_file \<Rightarrow> (js_error + string) \<times> effect list" where
  "extractText w d f =
     (let ext = toLowerCase (extname (originalname f)) in
      case readFileSync d (path f) of
        Inl err \<Rightarrow> (Inl err, [ReadFile (path f)])
      | Inr buffer \<Rightarrow>
          if ext = ''.pdf'' then
            (case pdf w buffer of
               None \<Rightarrow> (Inl PdfError, [ReadFile (path f), PdfParse buffer])
             | Some text \<Rightarrow> (Inr text, [ReadFile (path f), PdfParse buffer]))
          else (Inr (utf8 w buffer), [ReadFile (path f)]))"

definition systemPrompt :: string where
  "systemPrompt =
     ''You are a knowledgeable legal assistant. Answer the user'' @ [CHR 0x27] @
     ''s questions about the provided contract. '' @
     ''Only use information contained in the contract and avoid making assumptions. '' @
     ''If the contract does not specify the answer, respond that the information is not available.''"

text \<open>Lines 108-126: the argument of \<^verbatim>\<open>openai.chat.completions.create\<close>.\<close>

definition completion_params :: "string \<Rightarrow> string \<Rightarrow> chat_request" where
  "completion_params contractText question =
     \<lparr>model = ''gpt-4o'',
      messages =
        [(''system'', systemPrompt),
         (''user'', ''Contract:'' @ [CHR 0x0A, CHR 0x0A] @ contractText @
                    [CHR 0x0A, CHR 0x0A] @ ''Question: '' @ question)],
      temperature = 2 / 10,
      max_tokens = 512\<rparr>"

text \<open>Line 127: \<^verbatim>\<open>completion.choices?.[0]?.message?.content?.trim() || ''\<close>\<close>

definition answer_of :: "completion \<Rightarrow> string" where
  "answer_of c =
     (case choices c of
        None \<Rightarrow> []
      | Some [] \<Rightarrow> []
      | Some (ch # rest) \<Rightarrow>
          (case message ch of
             None \<Rightarrow> []
           | Some m \<Rightarrow>
               (case content m of
                  None \<Rightarrow> []
                | Some t \<Rightarrow> (if trim t = [] then [] else trim t))))"

text \<open>The test of line 65; the third part runs only for a string.\<close>

definition no_question :: "field \<Rightarrow> bool" where
  "no_question question =
     (\<not> truthy question \<or> typeof question \<noteq> ''string'' \<or>
      (case question of Text t \<Rightarrow> length (trim t) = 0 | _ \<Rightarrow> False))"

text \<open>The test of line 72: \<open>Inr True\<close> when payment is required, \<open>Inr False\<close> when the
  session passes, and the error when the property access throws.\<close>

definition payment_required :: "js_object \<Rightarrow> field \<Rightarrow> js_error + bool" where
  "payment_required paid sessionId =
     (if \<not> truthy sessionId then Inr True
      else case to_string sessionId of
             Inl err \<Rightarrow> Inl err
           | Inr k \<Rightarrow> Inr (\<not> get_truthy paid k))"

text \<open>Lines 58-133, the handler behind the upload middleware. Destructuring
  \<^verbatim>\<open>req.body\<close> throws when it is not set.\<close>

definition query :: "world \<Rightarrow> server \<Rightarrow> request \<Rightarrow> server \<times> outcome \<times> effect list" where
  "query w s req =
     (case req_body req of
        None \<Rightarrow> (s, Uncaught TypeError, [])
      | Some body_fields \<Rightarrow>
     (let question = body_fields ''question'';
          sessionId = body_fields ''sessionId''
      in
      case req_file req of
        None \<Rightarrow> (s, Sent \<lparr>status = 400, json = Error ''No contract file uploaded.''\<rparr>, [])
      | Some f \<Rightarrow>
          if no_question question
          then (s, Sent \<lparr>status = 400, json = Error ''A question is required.''\<rparr>, [])
          else
            (case payment_required (paidSessions s) sessionId of
               Inl err \<Rightarrow> (s, Uncaught err, [])
             | Inr required \<Rightarrow>
          if required
          then (s, Sent \<lparr>status = 402,
                    json = Error ''Payment required. Please purchase access to ask questions.''\<rparr>, [])
          else
            (case extractText w (disk s) f of
               (Inl err, eff) \<Rightarrow>
                 (s\<lparr>disk := try_unlink (disk s) (path f)\<rparr>,
                  Sent \<lparr>status = 500, json = Error ''Failed to read uploaded file.''\<rparr>,
                  eff @ [Unlink (path f)])
             | (Inr contractText, eff) \<Rightarrow>
                 (let s' = s\<lparr>disk := try_unlink (disk s) (path f)\<rparr>;
                      eff' = eff @ [Unlink (path f)]
                  in
                  case to_string question of
                    Inl err \<Rightarrow> (s', Uncaught err, eff')
                  | Inr q \<Rightarrow>
                  (let params = completion_params contractText q in
                  if \<not> some_string (OPENAI_API_KEY w)
                  then (s', Sent \<lparr>status = 500,
                             json = Error ''Server is misconfigured: missing OpenAI API key.''\<rparr>,
                        eff')
                  else
                    (case chat_create w params of
                       Some c \<Rightarrow>
                         (s', Sent \<lparr>status = 200, json = Answer (answer_of c)\<rparr>,
                          eff' @ [ChatCreate params])
                     | None \<Rightarrow>
                         (s', Sent \<lparr>status = 500,
                               json = Error ''Failed to retrieve answer from OpenAI.''\<rparr>,
                          eff' @ [ChatCreate params]))))))))"

text \<open>\<^verbatim>\<open>app.post('/api/query', upload.single('contract'), ...)\<close>\<close>

definition post_query :: "world \<Rightarrow> server \<Rightarrow> post_body \<Rightarrow> server \<times> outcome \<times> effect list" where
  "post_query w s b =
     (case upload_single (tmp_path w) (disk s) b of
        (d, req) \<Rightarrow> query w (s\<lparr>disk := d\<rparr>) req)"

text \<open>Lines 141-185, \<^verbatim>\<open>POST /api/create-checkout-session\<close>.\<close>

definition create_checkout_session ::
  "world \<Rightarrow> server \<Rightarrow> server \<times> outcome \<times> effect list" where
  "create_checkout_session w s =
     (if \<not> stripe s
      then (s, Sent \<lparr>status = 500, json = Error ''Stripe is not configured on the server.''\<rparr>, [])
      else
        (let domain = or_else (DOMAIN w) (''http://localhost:'' @ PORT w);
             lineItems =
               (if some_string (STRIPE_PRICE_ID w) \<and>
                   startsWith (or_else (STRIPE_PRICE_ID w) []) ''price_''
                then [Price (or_else (STRIPE_PRICE_ID w) [])]
                else
                  (let amount = (case STRIPE_AMOUNT w of
                                   None \<Rightarrow> NaN | Some a \<Rightarrow> Number w a)
                   in [PriceData
                         (or_else (STRIPE_CURRENCY w) ''usd'')
                         (if amount = NaN \<or> amount = Finite 0 then Finite 1000 else amount)]));
             params = \<lparr>line_items = lineItems,
                       success_url = domain @ ''/?session_id={CHECKOUT_SESSION_ID}'',
                       cancel_url = domain @ ''/?canceled=true''\<rparr>
         in
         case sessions_create w params of
           Inr (url, ident) \<Rightarrow>
             (s, Sent \<lparr>status = 200, json = Checkout url ident\<rparr>, [SessionsCreate params])
         | Inl msg \<Rightarrow>
             (s, Sent \<lparr>status = 500,
                  json = ErrorDetails ''Unable to create checkout session.''
                           (if msg = [] then ''Unknown error'' else msg)\<rparr>,
              [SessionsCreate params])))"

text \<open>Lines 191-211, \<^verbatim>\<open>GET /api/checkout-session\<close>. The assignment of line 204 is
  inside the \<^verbatim>\<open>try\<close> block, so a property key that cannot be formed ends in the
  \<^verbatim>\<open>catch\<close> block.\<close>

definition checkout_session ::
  "world \<Rightarrow> server \<Rightarrow> field \<Rightarrow> server \<times> outcome \<times> effect list" where
  "checkout_session w s session_id =
     (if \<not> stripe s
      then (s, Sent \<lparr>status = 500, json = Error ''Stripe is not configured on the server.''\<rparr>, [])
      else if \<not> truthy session_id
      then (s, Sent \<lparr>status = 400, json = Error ''session_id query parameter is required.''\<rparr>, [])
      else
        (case sessions_retrieve w session_id of
           Some payment_status \<Rightarrow>
             (let isPaid = (payment_status = ''paid'') in
              if isPaid
              then (case to_string session_id of
                      Inr k \<Rightarrow>
                        (s\<lparr>paidSessions := set_true (paidSessions s) k\<rparr>,
                         Sent \<lparr>status = 200, json = Paid isPaid\<rparr>,
                         [SessionsRetrieve session_id])
                    | Inl err \<Rightarrow>
                        (s, Sent \<lparr>status = 500,
                                  json = Error ''Unable to retrieve checkout session.''\<rparr>,
                         [SessionsRetrieve session_id]))
              else (s, Sent \<lparr>status = 200, json = Paid isPaid\<rparr>,
                    [SessionsRetrieve session_id]))
         | None \<Rightarrow>
             (s, Sent \<lparr>status = 500, json = Error ''Unable to retrieve checkout session.''\<rparr>,
              [SessionsRetrieve session_id])))"

text \<open>The routes of the application, and a run of the process over successive requests,
  each with the outside world it meets.\<close>

datatype http_request =
    PostQuery post_body
  | PostCreateCheckoutSession
  | GetCheckoutSession field
  | GetOther

fun handle :: "world \<Rightarrow> server \<Rightarrow> http_request \<Rightarrow> server \<times> outcome \<times> effect list" where
  "handle w s (PostQuery b) = post_query w s b"
| "handle w s PostCreateCheckoutSession = create_checkout_session w s"
| "handle w s (GetCheckoutSession session_id) = checkout_session w s session_id"
| "handle w s GetOther = (s, Sent \<lparr>status = 200, json = IndexHtml\<rparr>, [])"

fun run :: "server \<Rightarrow> (world \<times> http_request) list \<Rightarrow> server" where
  "run s [] = s"
| "run s ((w, r) # rest) = run (fst (handle w s r)) rest"

section \<open>Concrete requests\<close>

text \<open>A sample world and sample requests, on which the handlers are evaluated below.\<close>

definition ascii :: "byte list \<Rightarrow> string" where
  "ascii bs = map (\<lambda>b. char_of (unat b)) bs"

definition sample_world :: world where
  "sample_world =
     \<lparr>OPENAI_API_KEY = Some ''sk-test'', DOMAIN = None, PORT = ''5001'',
      STRIPE_PRICE_ID = Some ''price_123'', STRIPE_AMOUNT = None, STRIPE_CURRENCY = None,
      Number = (\<lambda>t. NaN),
      tmp_path = ''uploads/3f9a'',
      pdf = (\<lambda>bs. if bs = [] then None else Some ''Term: 12 months''),
      utf8 = ascii,
      chat_create =
        (\<lambda>rq. Some (Completion (Some [Choice (Some (Message (Some '' 12 months. '')))]))),
      sessions_retrieve =
        (\<lambda>k. if k = Text ''cs_paid'' then Some ''paid''
             else if k = Text ''cs_open'' then Some ''unpaid'' else None),
      sessions_create = (\<lambda>ps. Inr (''https://checkout.example/c/1'', ''cs_new''))\<rparr>"

definition keyless_world :: world where
  "keyless_world = sample_world\<lparr>OPENAI_API_KEY := None\<rparr>"

definition fresh_server :: server where
  "fresh_server = \<lparr>stripe = True, paidSessions = {}, disk = Map.empty\<rparr>"

definition paid_server :: server where
  "paid_server = \<lparr>stripe = True, paidSessions = {''cs_paid''}, disk = Map.empty\<rparr>"

definition form_of :: "field \<Rightarrow> field \<Rightarrow> string \<Rightarrow> field" where
  "form_of question sessionId k =
     (if k = ''question'' then question
      else if k = ''sessionId'' then sessionId
      else Absent)"

definition term_bytes :: "byte list" where
  "term_bytes = [84, 101, 114, 109]"

definition upload_of :: "string \<Rightarrow> field \<Rightarrow> field \<Rightarrow> multipart" where
  "upload_of name question sessionId =
     \<lparr>contract = Some (name, term_bytes), form = form_of question sessionId\<rparr>"

text \<open>The same request with an added form field \<^verbatim>\<open>paid=true\<close>.\<close>

definition claiming_paid :: "multipart \<Rightarrow> multipart" where
  "claiming_paid mp = mp\<lparr>form := (form mp)(''paid'' := Text ''true'')\<rparr>"

definition unpaid_upload :: multipart where
  "unpaid_upload = upload_of ''lease.txt'' (Text ''What is the term?'') (Text ''cs_open'')"

definition blank_upload :: multipart where
  "blank_upload = upload_of ''lease.txt'' (Text ''   '') (Text ''cs_paid'')"

definition paid_upload :: "string \<Rightarrow> multipart" where
  "paid_upload name = upload_of name (Text ''What is the term?'') (Text ''cs_paid'')"

definition no_upload :: "field \<Rightarrow> field \<Rightarrow> multipart" where
  "no_upload question sessionId = \<lparr>contract = None, form = form_of question sessionId\<rparr>"

definition later_requests :: "(world \<times> http_request) list" where
  "later_requests =
     [(sample_world, GetCheckoutSession (Text ''cs_open'')),
      (keyless_world, PostQuery (Multipart unpaid_upload)),
      (sample_world, PostQuery NotMultipart),
      (sample_world, PostQuery (Multipart (upload_of ''lease.txt'' (Text ''Who signs?'') Bare))),
      (sample_world, PostCreateCheckoutSession),
      (sample_world, GetOther)]"

definition other_upload :: multipart where
  "other_upload = claiming_paid (upload_of ''Lease.PDF'' (Text ''Who signs?'') (Text ''cs_open''))"

definition pdf_file :: upload_file where
  "pdf_file = \<lparr>originalname = ''Lease.PDF'', path = ''uploads/3f9a''\<rparr>"

definition txt_file :: upload_file where
  "txt_file = \<lparr>originalname = ''lease.txt'', path = ''uploads/3f9a''\<rparr>"

definition upload_disk :: "string \<rightharpoonup> byte list" where
  "upload_disk = [''uploads/3f9a'' \<mapsto> term_bytes]"

definition sample_completion :: completion where
  "sample_completion = Completion (Some [Choice (Some (Message (Some '' 12 months. '')))])"

definition silent_world :: world where
  "silent_world = sample_world\<lparr>chat_create := (\<lambda>rq. Some (Completion (Some [])))\<rparr>"

section \<open>Strings: trimming, lower case, extensions\<close>

lemma dropWhile_all_iff: "(\<forall>x \<in> set (dropWhile P xs). P x) \<longleftrightarrow> (\<forall>x \<in> set xs. P x)"
proof
  assume a: "\<forall>x \<in> set (dropWhile P xs). P x"
  have "dropWhile P xs = []"
  proof (rule ccontr)
    assume n: "dropWhile P xs \<noteq> []"
    then have "\<not> P (hd (dropWhile P xs))" by (rule hd_dropWhile)
    moreover from n have "hd (dropWhile P xs) \<in> set (dropWhile P xs)" by simp
    ultimately show False using a by blast
  qed
  then show "\<forall>x \<in> set xs. P x" by (simp add: dropWhile_eq_Nil_conv)
next
  assume "\<forall>x \<in> set xs. P x"
  then show "\<forall>x \<in> set (dropWhile P xs). P x" by (auto dest: set_dropWhileD)
qed

lemma trim_empty_iff: "trim t = [] \<longleftrightarrow> (\<forall>c \<in> set t. isWhiteSpace c)"
  by (simp add: trim_def dropWhile_eq_Nil_conv dropWhile_all_iff)

lemma no_question_iff:
  "no_question q \<longleftrightarrow>
     (case q of Text t \<Rightarrow> (\<forall>c \<in> set t. isWhiteSpace c) | _ \<Rightarrow> True)"
  by (cases q) (auto simp: no_question_def trim_empty_iff)

lemma rev_dropWhile_split:
  "xs = rev (dropWhile P (rev xs)) @ rev (takeWhile P (rev xs))"
proof -
  have "rev (dropWhile P (rev xs)) @ rev (takeWhile P (rev xs)) =
          rev (takeWhile P (rev xs) @ dropWhile P (rev xs))"
    by (simp only: rev_append)
  also have "\<dots> = rev (rev xs)" by (simp only: takeWhile_dropWhile_id)
  also have "\<dots> = xs" by simp
  finally show ?thesis by (rule sym)
qed

lemma trim_decompose:
  "\<exists>l r. t = l @ trim t @ r \<and> (\<forall>c \<in> set l. isWhiteSpace c) \<and> (\<forall>c \<in> set r. isWhiteSpace c)"
proof -
  let ?u = "dropWhile isWhiteSpace t"
  let ?l = "takeWhile isWhiteSpace t"
  let ?r = "rev (takeWhile isWhiteSpace (rev ?u))"
  have u: "?u = trim t @ ?r"
    unfolding trim_def by (rule rev_dropWhile_split)
  have "t = ?l @ ?u" by simp
  with u have "t = ?l @ trim t @ ?r" by simp
  moreover have "\<forall>c \<in> set ?l. isWhiteSpace c" by (auto dest: set_takeWhileD)
  moreover have "\<forall>c \<in> set ?r. isWhiteSpace c" by (auto dest: set_takeWhileD)
  ultimately show ?thesis by blast
qed

lemma trim_ends:
  assumes "trim t \<noteq> []"
  shows "\<not> isWhiteSpace (hd (trim t)) \<and> \<not> isWhiteSpace (last (trim t))"
proof -
  let ?u = "dropWhile isWhiteSpace t"
  let ?v = "dropWhile isWhiteSpace (rev ?u)"
  have v: "?v \<noteq> []" using assms unfolding trim_def rev_is_Nil_conv .
  then have "\<not> isWhiteSpace (hd ?v)" by (rule hd_dropWhile)
  moreover have "last (trim t) = hd ?v" unfolding trim_def by (simp only: last_rev)
  ultimately have l: "\<not> isWhiteSpace (last (trim t))" by simp
  have une: "?u \<noteq> []"
  proof
    assume e: "?u = []"
    have "?v = []" unfolding e by simp
    with v show False by simp
  qed
  then have hu: "\<not> isWhiteSpace (hd ?u)" by (rule hd_dropWhile)
  have "?u = trim t @ rev (takeWhile isWhiteSpace (rev ?u))"
    unfolding trim_def by (rule rev_dropWhile_split)
  then have "hd ?u = hd (trim t @ rev (takeWhile isWhiteSpace (rev ?u)))" by (rule arg_cong)
  with assms have "hd ?u = hd (trim t)" by simp
  with hu l show ?thesis by simp
qed

lemma of_char_lower_char:
  "(of_char (lower_char c) :: nat) =
     (if (65 \<le> (of_char c :: nat) \<and> (of_char c :: nat) \<le> 90) \<or>
         (192 \<le> (of_char c :: nat) \<and> (of_char c :: nat) \<le> 222 \<and> (of_char c :: nat) \<noteq> 215)
      then of_char c + 32 else of_char c)"
proof -
  define n where "n = (of_char c :: nat)"
  have lc: "lower_char c =
      (if (65 \<le> n \<and> n \<le> 90) \<or> (192 \<le> n \<and> n \<le> 222 \<and> n \<noteq> 215)
       then char_of (n + 32) else c)"
    unfolding lower_char_def n_def Let_def ..
  have "n + 32 < 256 \<Longrightarrow> (of_char (char_of (n + 32) :: char) :: nat) = n + 32"
    by (simp only: of_char_of mod_less)
  then show ?thesis
    unfolding lc n_def [symmetric]
    by (cases "(65 \<le> n \<and> n \<le> 90) \<or> (192 \<le> n \<and> n \<le> 222 \<and> n \<noteq> 215)")
       (auto simp: n_def)
qed

text \<open>Which characters lower to a given small letter, and to a character below \<open>A\<close>.\<close>

lemma lower_char_letter:
  assumes "97 \<le> (of_char l :: nat)" "(of_char l :: nat) \<le> 122"
  shows "lower_char c = l \<longleftrightarrow> c = l \<or> (of_char c :: nat) + 32 = of_char l"
proof -
  define n m where "n = (of_char c :: nat)" and "m = (of_char l :: nat)"
  have ceq: "c = l \<longleftrightarrow> n = m"
    unfolding n_def m_def by (rule of_char_eq_iff [symmetric])
  have "lower_char c = l \<longleftrightarrow> (of_char (lower_char c) :: nat) = m"
    unfolding m_def by (rule of_char_eq_iff [symmetric])
  also have "\<dots> \<longleftrightarrow> n = m \<or> n + 32 = m"
    using assms unfolding of_char_lower_char n_def [symmetric] m_def [symmetric] by auto
  finally show ?thesis unfolding ceq n_def m_def .
qed

lemma lower_char_below:
  assumes "(of_char l :: nat) < 65"
  shows "lower_char c = l \<longleftrightarrow> c = l"
proof -
  define n m where "n = (of_char c :: nat)" and "m = (of_char l :: nat)"
  have ceq: "c = l \<longleftrightarrow> n = m"
    unfolding n_def m_def by (rule of_char_eq_iff [symmetric])
  have "lower_char c = l \<longleftrightarrow> (of_char (lower_char c) :: nat) = m"
    unfolding m_def by (rule of_char_eq_iff [symmetric])
  also have "\<dots> \<longleftrightarrow> n = m"
    using assms unfolding of_char_lower_char n_def [symmetric] m_def [symmetric] by auto
  finally show ?thesis unfolding ceq .
qed

lemma lower_char_p: "lower_char c = CHR ''p'' \<longleftrightarrow> c = CHR ''p'' \<or> c = CHR ''P''"
proof -
  have "(of_char c :: nat) + 32 = of_char (CHR ''p'') \<longleftrightarrow> (of_char c :: nat) = of_char (CHR ''P'')"
    by auto
  then show ?thesis
    by (subst lower_char_letter) (simp_all only: of_char_eq_iff, simp_all)
qed

lemma lower_char_d: "lower_char c = CHR ''d'' \<longleftrightarrow> c = CHR ''d'' \<or> c = CHR ''D''"
proof -
  have "(of_char c :: nat) + 32 = of_char (CHR ''d'') \<longleftrightarrow> (of_char c :: nat) = of_char (CHR ''D'')"
    by auto
  then show ?thesis
    by (subst lower_char_letter) (simp_all only: of_char_eq_iff, simp_all)
qed

lemma lower_char_f: "lower_char c = CHR ''f'' \<longleftrightarrow> c = CHR ''f'' \<or> c = CHR ''F''"
proof -
  have "(of_char c :: nat) + 32 = of_char (CHR ''f'') \<longleftrightarrow> (of_char c :: nat) = of_char (CHR ''F'')"
    by auto
  then show ?thesis
    by (subst lower_char_letter) (simp_all only: of_char_eq_iff, simp_all)
qed

lemma lower_char_dot: "lower_char c = CHR ''.'' \<longleftrightarrow> c = CHR ''.''"
  by (subst lower_char_below) simp_all

text \<open>The comparison \<^verbatim>\<open>ext === '.pdf'\<close> after \<^verbatim>\<open>toLowerCase\<close> accepts exactly the
  eight spellings of the extension.\<close>

lemma toLowerCase_pdf_iff:
  "toLowerCase e = ''.pdf'' \<longleftrightarrow>
     (\<exists>p d f. e = [CHR ''.'', p, d, f] \<and> (p = CHR ''p'' \<or> p = CHR ''P'') \<and>
        (d = CHR ''d'' \<or> d = CHR ''D'') \<and> (f = CHR ''f'' \<or> f = CHR ''F''))"
proof
  assume "toLowerCase e = ''.pdf''"
  then have m: "map lower_char e = [CHR ''.'', CHR ''p'', CHR ''d'', CHR ''f'']"
    by (simp add: toLowerCase_def)
  then obtain a p d f where e: "e = [a, p, d, f]"
    and a: "lower_char a = CHR ''.''" and p: "lower_char p = CHR ''p''"
    and d: "lower_char d = CHR ''d''" and f: "lower_char f = CHR ''f''"
    by (auto simp add: map_eq_Cons_conv)
  from a have a': "a = CHR ''.''" by (simp only: lower_char_dot)
  from p have p': "p = CHR ''p'' \<or> p = CHR ''P''" by (simp only: lower_char_p)
  from d have d': "d = CHR ''d'' \<or> d = CHR ''D''" by (simp only: lower_char_d)
  from f have f': "f = CHR ''f'' \<or> f = CHR ''F''" by (simp only: lower_char_f)
  have "e = [CHR ''.'', p, d, f]" unfolding e a' ..
  with p' d' f' show "\<exists>p d f. e = [CHR ''.'', p, d, f] \<and> (p = CHR ''p'' \<or> p = CHR ''P'') \<and>
        (d = CHR ''d'' \<or> d = CHR ''D'') \<and> (f = CHR ''f'' \<or> f = CHR ''F'')"
    by blast
next
  assume "\<exists>p d f. e = [CHR ''.'', p, d, f] \<and> (p = CHR ''p'' \<or> p = CHR ''P'') \<and>
        (d = CHR ''d'' \<or> d = CHR ''D'') \<and> (f = CHR ''f'' \<or> f = CHR ''F'')"
  then obtain p d f where e: "e = [CHR ''.'', p, d, f]"
    and p: "lower_char p = CHR ''p''" and d: "lower_char d = CHR ''d''"
    and f: "lower_char f = CHR ''f''"
    unfolding lower_char_p lower_char_d lower_char_f by blast
  have dot: "lower_char (CHR ''.'') = CHR ''.''" by (simp only: lower_char_dot)
  show "toLowerCase e = ''.pdf''"
    unfolding toLowerCase_def e by (simp only: list.map p d f dot)
qed

text \<open>
  The extension of a plain file name: for a name without a directory separator, made of
  a non-empty stem, a dot and a non-empty suffix without a dot, \<open>extname\<close> is the dot
  with the suffix. The scan is followed in two parts, the suffix and the stem.
\<close>

lemma extname_loop_tail:
  assumes "startDot st = - 1" "0 < j"
    and "\<forall>m < j. p ! (i + m) \<noteq> CHR ''/'' \<and> p ! (i + m) \<noteq> CHR ''.''"
  shows "extname_loop p (i + j) st =
           extname_loop p i
             (if endPos st = - 1 then st\<lparr>matchedSlash := False, endPos := int (i + j)\<rparr> else st)"
  using assms
proof (induction j arbitrary: st)
  case 0
  then show ?case by simp
next
  case (Suc j)
  let ?st1 = "if endPos st = - 1 then st\<lparr>matchedSlash := False, endPos := int (i + j) + 1\<rparr> else st"
  from Suc.prems have c: "p ! (i + j) \<noteq> CHR ''/''" "p ! (i + j) \<noteq> CHR ''.''"
    by auto
  have step: "extname_loop p (i + Suc j) st = extname_loop p (i + j) ?st1"
    using c Suc.prems(1) by (simp add: Let_def)
  show ?case
  proof (cases "j = 0")
    case True
    then show ?thesis using step by (simp add: add.commute)
  next
    case False
    have sd: "startDot ?st1 = - 1" using Suc.prems(1) by simp
    have ep: "endPos ?st1 \<noteq> - 1" by simp
    have rest: "\<forall>m < j. p ! (i + m) \<noteq> CHR ''/'' \<and> p ! (i + m) \<noteq> CHR ''.''"
      using Suc.prems(3) by auto
    from False have "0 < j" by simp
    from Suc.IH [OF sd this rest] ep
    have "extname_loop p (i + j) ?st1 = extname_loop p i ?st1" by simp
    with step show ?thesis by (simp add: add.commute)
  qed
qed

lemma extname_loop_head:
  assumes "startDot st \<noteq> - 1" "endPos st \<noteq> - 1"
    and "\<forall>m < i. p ! m \<noteq> CHR ''/''"
  shows "startDot (extname_loop p i st) = startDot st \<and>
         endPos (extname_loop p i st) = endPos st \<and>
         (0 < i \<or> preDotState st \<noteq> 0 \<longrightarrow> preDotState (extname_loop p i st) \<noteq> 0)"
  using assms
proof (induction i arbitrary: st)
  case 0
  then show ?case by simp
next
  case (Suc i)
  let ?st2 = "if p ! i = CHR ''.'' then (if preDotState st \<noteq> 1 then st\<lparr>preDotState := 1\<rparr> else st)
              else st\<lparr>preDotState := - 1\<rparr>"
  from Suc.prems have c: "p ! i \<noteq> CHR ''/''" by auto
  have step: "extname_loop p (Suc i) st = extname_loop p i ?st2"
    using c Suc.prems(1,2) by (simp add: Let_def)
  have a: "startDot ?st2 \<noteq> - 1" "endPos ?st2 \<noteq> - 1" "preDotState ?st2 \<noteq> 0"
    "startDot ?st2 = startDot st" "endPos ?st2 = endPos st"
    using Suc.prems(1,2) by auto
  have rest: "\<forall>m < i. p ! m \<noteq> CHR ''/''" using Suc.prems(3) by auto
  from Suc.IH [OF a(1) a(2) rest] a(3,4,5) step show ?case by simp
qed

lemma extname_plain:
  assumes "CHR ''/'' \<notin> set stem" "stem \<noteq> []"
    and "CHR ''/'' \<notin> set e" "CHR ''.'' \<notin> set e" "e \<noteq> []"
  shows "extname (stem @ CHR ''.'' # e) = CHR ''.'' # e"
proof -
  let ?p = "stem @ CHR ''.'' # e"
  let ?k = "length stem"
  let ?st0 = "ext_scan_init\<lparr>matchedSlash := False, endPos := int (length ?p)\<rparr>"
  let ?st1 = "?st0\<lparr>startDot := int ?k\<rparr>"
  have tail: "\<forall>m < length e. ?p ! (Suc ?k + m) \<noteq> CHR ''/'' \<and> ?p ! (Suc ?k + m) \<noteq> CHR ''.''"
    using assms(3,4) by (auto simp: nth_append dest: nth_mem)
  have "extname_loop ?p (Suc ?k + length e) ext_scan_init = extname_loop ?p (Suc ?k) ?st0"
    using extname_loop_tail [of ext_scan_init "length e" ?p "Suc ?k"] tail assms(5)
    by (simp add: ext_scan_init_def)
  also have "\<dots> = extname_loop ?p ?k ?st1"
    by (simp add: Let_def ext_scan_init_def)
  finally have run: "extname_loop ?p (length ?p) ext_scan_init = extname_loop ?p ?k ?st1"
    by simp
  have head: "\<forall>m < ?k. ?p ! m \<noteq> CHR ''/''"
    using assms(1) by (auto simp: nth_append dest: nth_mem)
  have "startDot ?st1 \<noteq> - 1" "endPos ?st1 \<noteq> - 1" by simp_all
  from extname_loop_head [OF this head] assms(2)
  have fin: "startDot (extname_loop ?p ?k ?st1) = int ?k"
    "endPos (extname_loop ?p ?k ?st1) = int (length ?p)"
    "preDotState (extname_loop ?p ?k ?st1) \<noteq> 0"
    by simp_all
  have ne: "int ?k \<noteq> int (length ?p) - 1" using assms(5) by (cases e) auto
  show ?thesis
    unfolding extname_def run Let_def using fin ne by simp
qed

text \<open>So a plain name that ends in the extension, in any of its spellings, is taken for
  a PDF.\<close>

lemma plain_pdf_name:
  assumes "CHR ''/'' \<notin> set stem" "stem \<noteq> []"
    and "p = CHR ''p'' \<or> p = CHR ''P''" "d = CHR ''d'' \<or> d = CHR ''D''"
    and "f = CHR ''f'' \<or> f = CHR ''F''"
  shows "toLowerCase (extname (stem @ [CHR ''.'', p, d, f])) = ''.pdf''"
proof -
  have "extname (stem @ CHR ''.'' # [p, d, f]) = CHR ''.'' # [p, d, f]"
    using assms by (intro extname_plain) auto
  then show ?thesis using assms(3,4,5) by (simp only: toLowerCase_pdf_iff) blast
qed

section \<open>The query handler, case by case\<close>

lemma post_query_not_multipart:
  "post_query w s NotMultipart = (s, Uncaught TypeError, [])"
  by (simp add: post_query_def upload_single_def query_def)

lemma post_query_no_file:
  "contract mp = None \<Longrightarrow>
     post_query w s (Multipart mp) =
       (s, Sent \<lparr>status = 400, json = Error ''No contract file uploaded.''\<rparr>, [])"
  by (simp add: post_query_def upload_single_def query_def)

lemma post_query_nameless_file:
  "contract mp = Some (filename, bytes) \<Longrightarrow> basename filename = [] \<Longrightarrow>
     post_query w s (Multipart mp) =
       (s, Sent \<lparr>status = 400, json = Error ''No contract file uploaded.''\<rparr>, [])"
  by (simp add: post_query_def upload_single_def query_def)

lemma post_query_file:
  "contract mp = Some (filename, bytes) \<Longrightarrow> basename filename \<noteq> [] \<Longrightarrow>
     post_query w s (Multipart mp) =
       query w (s\<lparr>disk := (disk s)(tmp_path w \<mapsto> bytes)\<rparr>)
         \<lparr>req_file = Some \<lparr>originalname = basename filename, path = tmp_path w\<rparr>,
          req_body = Some (form mp)\<rparr>"
  by (simp add: post_query_def upload_single_def)

lemma query_no_question:
  "req_body req = Some flds \<Longrightarrow> req_file req = Some f \<Longrightarrow> no_question (flds ''question'') \<Longrightarrow>
     query w s req = (s, Sent \<lparr>status = 400, json = Error ''A question is required.''\<rparr>, [])"
  by (simp add: query_def)

lemma query_payment_throws:
  "req_body req = Some flds \<Longrightarrow> req_file req = Some f \<Longrightarrow>
   \<not> no_question (flds ''question'') \<Longrightarrow>
   payment_required (paidSessions s) (flds ''sessionId'') = Inl err \<Longrightarrow>
     query w s req = (s, Uncaught err, [])"
  by (simp add: query_def)

lemma query_payment_required:
  "req_body req = Some flds \<Longrightarrow> req_file req = Some f \<Longrightarrow>
   \<not> no_question (flds ''question'') \<Longrightarrow>
   payment_required (paidSessions s) (flds ''sessionId'') = Inr True \<Longrightarrow>
     query w s req =
       (s, Sent \<lparr>status = 402,
             json = Error ''Payment required. Please purchase access to ask questions.''\<rparr>, [])"
  by (simp add: query_def)

text \<open>A question that passes the test of line 65 is a string.\<close>

lemma question_is_text: "\<not> no_question q \<Longrightarrow> \<exists>t. q = Text t \<and> to_string q = Inr t"
  by (cases q) (auto simp: no_question_def)

text \<open>Past the three checks: the rest of the handler, by the outcome of the extraction.\<close>

lemma query_extraction_failed:
  "req_body req = Some flds \<Longrightarrow> req_file req = Some f \<Longrightarrow>
   \<not> no_question (flds ''question'') \<Longrightarrow>
   payment_required (paidSessions s) (flds ''sessionId'') = Inr False \<Longrightarrow>
   extractText w (disk s) f = (Inl err, eff) \<Longrightarrow>
     query w s req =
       (s\<lparr>disk := try_unlink (disk s) (path f)\<rparr>,
        Sent \<lparr>status = 500, json = Error ''Failed to read uploaded file.''\<rparr>,
        eff @ [Unlink (path f)])"
  by (simp add: query_def)

lemma query_no_key:
  "req_body req = Some flds \<Longrightarrow> req_file req = Some f \<Longrightarrow>
   \<not> no_question (flds ''question'') \<Longrightarrow>
   payment_required (paidSessions s) (flds ''sessionId'') = Inr False \<Longrightarrow>
   extractText w (disk s) f = (Inr contractText, eff) \<Longrightarrow>
   \<not> some_string (OPENAI_API_KEY w) \<Longrightarrow>
     query w s req =
       (s\<lparr>disk := try_unlink (disk s) (path f)\<rparr>,
        Sent \<lparr>status = 500, json = Error ''Server is misconfigured: missing OpenAI API key.''\<rparr>,
        eff @ [Unlink (path f)])"
proof -
  assume a: "req_body req = Some flds" "req_file req = Some f"
    "\<not> no_question (flds ''question'')"
    "payment_required (paidSessions s) (flds ''sessionId'') = Inr False"
    "extractText w (disk s) f = (Inr contractText, eff)"
    "\<not> some_string (OPENAI_API_KEY w)"
  from question_is_text [OF a(3)] obtain q where "to_string (flds ''question'') = Inr q" by blast
  with a show ?thesis by (simp add: query_def Let_def)
qed

lemma query_completion:
  "req_body req = Some flds \<Longrightarrow> req_file req = Some f \<Longrightarrow>
   \<not> no_question (flds ''question'') \<Longrightarrow>
   payment_required (paidSessions s) (flds ''sessionId'') = Inr False \<Longrightarrow>
   extractText w (disk s) f = (Inr contractText, eff) \<Longrightarrow>
   some_string (OPENAI_API_KEY w) \<Longrightarrow>
   to_string (flds ''question'') = Inr q \<Longrightarrow>
     query w s req =
       (s\<lparr>disk := try_unlink (disk s) (path f)\<rparr>,
        (case chat_create w (completion_params contractText q) of
           Some c \<Rightarrow> Sent \<lparr>status = 200, json = Answer (answer_of c)\<rparr>
         | None \<Rightarrow> Sent \<lparr>status = 500, json = Error ''Failed to retrieve answer from OpenAI.''\<rparr>),
        eff @ [Unlink (path f), ChatCreate (completion_params contractText q)])"
  by (simp add: query_def Let_def split: option.splits)

lemma extractText_present:
  "d (path f) = Some buffer \<Longrightarrow>
     extractText w d f =
       (if toLowerCase (extname (originalname f)) = ''.pdf''
        then (case pdf w buffer of
                Some contractText \<Rightarrow> (Inr contractText, [ReadFile (path f), PdfParse buffer])
              | None \<Rightarrow> (Inl PdfError, [ReadFile (path f), PdfParse buffer]))
        else (Inr (utf8 w buffer), [ReadFile (path f)]))"
  by (simp add: extractText_def readFileSync_def Let_def split: option.splits)

lemma try_unlink_upload: "try_unlink (d(p \<mapsto> bs)) p = d(p := None)"
  by (simp add: try_unlink_def unlinkSync_def)

lemma extractText_reads: "ReadFile (path f) \<in> set (snd (extractText w d f))"
  by (simp add: extractText_def readFileSync_def Let_def split: option.splits sum.splits)

lemma extractText_no_completion: "filter completion_call (snd (extractText w d f)) = []"
  by (simp add: extractText_def readFileSync_def Let_def split: option.splits sum.splits)

lemma extractText_no_stripe_call: "\<forall>e \<in> set (snd (extractText w d f)). \<not> stripe_call e"
  by (simp add: extractText_def readFileSync_def Let_def split: option.splits sum.splits)

lemma query_paidSessions: "paidSessions (fst (query w s req)) = paidSessions s"
  by (simp add: query_def Let_def split: option.splits sum.splits prod.splits)

lemma post_query_paidSessions: "paidSessions (fst (post_query w s b)) = paidSessions s"
  by (simp add: post_query_def upload_single_def query_paidSessions
      split: option.splits prod.splits post_body.splits)

lemma checkout_session_grows:
  "paidSessions s \<subseteq> paidSessions (fst (checkout_session w s sid))"
  by (auto simp: checkout_session_def set_true_def Let_def split: option.splits sum.splits)

lemma create_checkout_session_state: "fst (create_checkout_session w s) = s"
  by (simp add: create_checkout_session_def Let_def split: sum.splits prod.splits)

lemma handle_grows: "paidSessions s \<subseteq> paidSessions (fst (handle w s r))"
  by (cases r) (simp_all add: post_query_paidSessions checkout_session_grows create_checkout_session_state)

lemma run_grows: "paidSessions s \<subseteq> paidSessions (run s rs)"
proof (induction rs arbitrary: s)
  case Nil
  show ?case by simp
next
  case (Cons a rs)
  obtain w r where a: "a = (w, r)" by (cases a)
  have "paidSessions s \<subseteq> paidSessions (fst (handle w s r))" by (rule handle_grows)
  also have "\<dots> \<subseteq> paidSessions (run (fst (handle w s r)) rs)" by (rule Cons.IH)
  finally show ?case by (simp add: a)
qed

lemma get_truthy_mono: "A \<subseteq> B \<Longrightarrow> get_truthy A k \<Longrightarrow> get_truthy B k"
  by (auto simp: get_truthy_def split: if_splits)

lemma get_truthy_set_true: "get_truthy (set_true A k) k"
  by (simp add: get_truthy_def set_true_def Object_prototype_def)

text \<open>When the verification answers \<^verbatim>\<open>{paid: true}\<close>.\<close>

lemma checkout_session_paid:
  "fst (snd (checkout_session w s sid)) = Sent \<lparr>status = 200, json = Paid True\<rparr> \<longleftrightarrow>
     stripe s \<and> truthy sid \<and> sessions_retrieve w sid = Some ''paid'' \<and>
     (\<exists>k. to_string sid = Inr k)"
  by (cases "to_string sid") (auto simp: checkout_session_def Let_def split: option.splits)

lemma checkout_session_paid_state:
  "fst (snd (checkout_session w s sid)) = Sent \<lparr>status = 200, json = Paid True\<rparr> \<Longrightarrow>
   to_string sid = Inr k \<Longrightarrow>
     fst (checkout_session w s sid) = s\<lparr>paidSessions := set_true (paidSessions s) k\<rparr>"
  by (auto simp: checkout_session_def Let_def split: option.splits if_splits)

lemma query_no_stripe_call: "\<forall>e \<in> set (snd (snd (query w s req))). \<not> stripe_call e"
  by (auto simp: query_def extractText_def readFileSync_def Let_def
      split: option.splits sum.splits prod.splits if_splits)

lemma post_query_no_stripe_call: "\<forall>e \<in> set (snd (snd (post_query w s b))). \<not> stripe_call e"
  by (simp add: post_query_def query_no_stripe_call split: prod.splits)

lemma ascii_term_bytes: "ascii term_bytes = ''Term''"
  by code_simp

lemma text_question:
  "t \<noteq> [] \<Longrightarrow> \<not> isWhiteSpace (hd t) \<Longrightarrow> \<not> no_question (Text t)"
  by (cases t) (auto simp: no_question_iff)

section \<open>The sample requests\<close>

lemma basename_samples:
  "basename ''lease.txt'' = ''lease.txt''" "basename ''Lease.PDF'' = ''Lease.PDF''"
  by code_simp+

lemma paid_upload_facts:
  "contract (paid_upload n) = Some (n, term_bytes)"
  "\<not> no_question (form (paid_upload n) ''question'')"
  "to_string (form (paid_upload n) ''question'') = Inr ''What is the term?''"
  "payment_required (paidSessions paid_server) (form (paid_upload n) ''sessionId'') = Inr False"
  by (simp_all add: paid_upload_def upload_of_def form_of_def text_question isWhiteSpace_def
      payment_required_def get_truthy_def paid_server_def)

lemma unpaid_upload_facts:
  "contract unpaid_upload = Some (''lease.txt'', term_bytes)"
  "\<not> no_question (form unpaid_upload ''question'')"
  "form unpaid_upload ''sessionId'' = Text ''cs_open''"
  "payment_required (paidSessions fresh_server) (form unpaid_upload ''sessionId'') = Inr True"
  by (simp_all add: unpaid_upload_def upload_of_def form_of_def text_question isWhiteSpace_def
      payment_required_def get_truthy_def fresh_server_def Object_prototype_def)

lemma blank_upload_facts:
  "contract blank_upload = Some (''lease.txt'', term_bytes)"
  "form blank_upload ''question'' = Text ''   ''"
  "no_question (form blank_upload ''question'')"
  "payment_required (paidSessions paid_server) (form blank_upload ''sessionId'') = Inr False"
  by (simp_all add: blank_upload_def upload_of_def form_of_def no_question_iff isWhiteSpace_def
      payment_required_def get_truthy_def paid_server_def)

lemma sample_world_facts:
  "tmp_path sample_world = ''uploads/3f9a''"
  "some_string (OPENAI_API_KEY sample_world)"
  "utf8 sample_world term_bytes = ''Term''"
  "pdf sample_world term_bytes = Some ''Term: 12 months''"
  by (simp_all add: sample_world_def some_string_def ascii_term_bytes) (simp add: term_bytes_def)

lemma sample_extensions:
  "toLowerCase (extname ''Lease.PDF'') = ''.pdf''"
  "toLowerCase (extname ''lease.txt'') = ''.txt''"
  by code_simp+

section \<open>Upload cleanup\<close>

text \<open>
  C1. The claim: after any call of \<^verbatim>\<open>POST /api/query\<close>, whatever the response, the
  temporary file of the upload is gone. The handler removes the file only after the
  payment check: a request with an upload and a blank question is answered 400, and one
  with an unpaid session 402, and in both the temporary file is still on disk with the
  uploaded bytes.
\<close>

theorem rejected_query_leaves_upload:
  "fst (snd (post_query sample_world paid_server (Multipart blank_upload)))
     = Sent \<lparr>status = 400, json = Error ''A question is required.''\<rparr> \<and>
   disk (fst (post_query sample_world paid_server (Multipart blank_upload)))
     (tmp_path sample_world) = Some term_bytes \<and>
   fst (snd (post_query sample_world fresh_server (Multipart unpaid_upload)))
     = Sent \<lparr>status = 402,
             json = Error ''Payment required. Please purchase access to ask questions.''\<rparr> \<and>
   disk (fst (post_query sample_world fresh_server (Multipart unpaid_upload)))
     (tmp_path sample_world) = Some term_bytes"
proof -
  have n: "basename ''lease.txt'' \<noteq> []" by (simp add: basename_samples)
  show ?thesis
    by (simp add: post_query_file [OF blank_upload_facts(1) n]
        post_query_file [OF unpaid_upload_facts(1) n]
        query_no_question blank_upload_facts(3)
        query_payment_required unpaid_upload_facts(2,4))
qed

section \<open>Validation\<close>

text \<open>
  C4. The claim: a request without an attached file is answered 400, before anything
  else. A request whose body is not a multipart form has no attached file; the upload
  middleware passes it on without setting \<^verbatim>\<open>req.body\<close>, line 60 throws on it, and the
  check of line 62 is never reached: the handler sends no response.
\<close>

theorem query_without_form_throws:
  "post_query sample_world paid_server NotMultipart = (paid_server, Uncaught TypeError, [])"
  by (rule post_query_not_multipart)

text \<open>
  For a multipart request the checks are as claimed: without a file part, or with one
  whose name is empty, the answer is 400, and so it is with a question that is missing,
  not a string, or blank after trimming; for every \<^verbatim>\<open>sessionId\<close> and every state of
  \<^verbatim>\<open>paidSessions\<close>, with no outside call.
\<close>

lemma multipart_validation:
  "(contract mp = None \<or> (\<exists>filename bytes. contract mp = Some (filename, bytes) \<and>
                                               basename filename = []) \<longrightarrow>
      post_query w s (Multipart mp) =
        (s, Sent \<lparr>status = 400, json = Error ''No contract file uploaded.''\<rparr>, [])) \<and>
   ((\<exists>filename bytes. contract mp = Some (filename, bytes) \<and> basename filename \<noteq> []) \<and>
    (form mp ''question'' = Absent \<or> form mp ''question'' = Bare \<or>
     (\<exists>k. form mp ''question'' = Struct k) \<or>
     (\<exists>t. form mp ''question'' = Text t \<and> trim t = [])) \<longrightarrow>
      fst (snd (post_query w s (Multipart mp)))
        = Sent \<lparr>status = 400, json = Error ''A question is required.''\<rparr> \<and>
      snd (snd (post_query w s (Multipart mp))) = [] \<and>
      paidSessions (fst (post_query w s (Multipart mp))) = paidSessions s)"
proof (intro conjI impI)
  assume "contract mp = None \<or> (\<exists>filename bytes. contract mp = Some (filename, bytes) \<and>
                                               basename filename = [])"
  then show "post_query w s (Multipart mp) =
        (s, Sent \<lparr>status = 400, json = Error ''No contract file uploaded.''\<rparr>, [])"
    by (auto simp: post_query_no_file post_query_nameless_file)
next
  assume a: "(\<exists>filename bytes. contract mp = Some (filename, bytes) \<and> basename filename \<noteq> []) \<and>
    (form mp ''question'' = Absent \<or> form mp ''question'' = Bare \<or>
     (\<exists>k. form mp ''question'' = Struct k) \<or>
     (\<exists>t. form mp ''question'' = Text t \<and> trim t = []))"
  then obtain filename bytes where c: "contract mp = Some (filename, bytes)"
    and n: "basename filename \<noteq> []" by auto
  from a have q: "no_question (form mp ''question'')"
    by (auto simp: no_question_def)
  show "fst (snd (post_query w s (Multipart mp)))
        = Sent \<lparr>status = 400, json = Error ''A question is required.''\<rparr>"
    and "snd (snd (post_query w s (Multipart mp))) = []"
    and "paidSessions (fst (post_query w s (Multipart mp))) = paidSessions s"
    by (simp_all add: post_query_file [OF c n] query_no_question q)
qed

section \<open>The payment check\<close>

text \<open>
  C2, as amended. For every multipart request to \<^verbatim>\<open>POST /api/query\<close> that carries a
  file and a question that is not blank, and whose \<^verbatim>\<open>sessionId\<close> is missing or empty,
  or has a string conversion that is neither recorded in \<^verbatim>\<open>paidSessions\<close> nor the name
  of a property that every object inherits, the response is 402 and the handler makes
  no outside call at all: no file read, no PDF parse, no completion request.
\<close>

theorem unpaid_query_rejected:
  assumes "contract mp = Some (filename, bytes)" and "basename filename \<noteq> []"
    and "\<not> no_question (form mp ''question'')"
    and "\<not> truthy (form mp ''sessionId'') \<or>
         (\<exists>k. to_string (form mp ''sessionId'') = Inr k \<and> k \<notin> paidSessions s \<and>
              k \<notin> set Object_prototype)"
  shows "fst (snd (post_query w s (Multipart mp)))
           = Sent \<lparr>status = 402,
                   json = Error ''Payment required. Please purchase access to ask questions.''\<rparr> \<and>
         snd (snd (post_query w s (Multipart mp))) = [] \<and>
         (\<forall>e \<in> set (snd (snd (post_query w s (Multipart mp)))).
            \<not> extraction_call e \<and> \<not> completion_call e)"
proof -
  from assms(4) have "payment_required (paidSessions s) (form mp ''sessionId'') = Inr True"
    by (auto simp: payment_required_def get_truthy_def)
  then show ?thesis
    by (simp add: post_query_file [OF assms(1,2)] query_payment_required assms(3))
qed

text \<open>C2, witness: the session \<^verbatim>\<open>cs_open\<close> was never recorded on a fresh server.\<close>

theorem unpaid_query_rejected_witness:
  "contract unpaid_upload = Some (''lease.txt'', term_bytes) \<and>
   basename ''lease.txt'' \<noteq> [] \<and>
   \<not> no_question (form unpaid_upload ''question'') \<and>
   to_string (form unpaid_upload ''sessionId'') = Inr ''cs_open'' \<and>
   ''cs_open'' \<notin> paidSessions fresh_server \<and> ''cs_open'' \<notin> set Object_prototype \<and>
   fst (snd (post_query sample_world fresh_server (Multipart unpaid_upload)))
     = Sent \<lparr>status = 402,
             json = Error ''Payment required. Please purchase access to ask questions.''\<rparr> \<and>
   snd (snd (post_query sample_world fresh_server (Multipart unpaid_upload))) = []"
proof -
  have n: "basename ''lease.txt'' \<noteq> []" by (simp add: basename_samples)
  have k: "to_string (form unpaid_upload ''sessionId'') = Inr ''cs_open''"
    "''cs_open'' \<notin> paidSessions fresh_server" "''cs_open'' \<notin> set Object_prototype"
    by (simp_all add: unpaid_upload_facts(3) fresh_server_def Object_prototype_def)
  then have "\<exists>k. to_string (form unpaid_upload ''sessionId'') = Inr k \<and>
      k \<notin> paidSessions fresh_server \<and> k \<notin> set Object_prototype" by blast
  then have d: "\<not> truthy (form unpaid_upload ''sessionId'') \<or>
     (\<exists>k. to_string (form unpaid_upload ''sessionId'') = Inr k \<and>
        k \<notin> paidSessions fresh_server \<and> k \<notin> set Object_prototype)" ..
  note r = unpaid_query_rejected
    [OF unpaid_upload_facts(1) n unpaid_upload_facts(2) d, of sample_world]
  from r have r1: "fst (snd (post_query sample_world fresh_server (Multipart unpaid_upload)))
     = Sent \<lparr>status = 402,
             json = Error ''Payment required. Please purchase access to ask questions.''\<rparr>"
    and r2: "snd (snd (post_query sample_world fresh_server (Multipart unpaid_upload))) = []"
    by blast+
  show ?thesis
    by (intro conjI) (rule unpaid_upload_facts(1,2) n k r1 r2)+
qed

text \<open>
  C2, counterexample to the claim as stated: a multipart request without a
  \<^verbatim>\<open>sessionId\<close> and without a file is answered 400, since the file check comes first.
\<close>

theorem missing_session_without_file_counterexample:
  "form (no_upload (Text ''What is the term?'') Absent) ''sessionId'' = Absent \<and>
   fst (snd (post_query sample_world fresh_server
               (Multipart (no_upload (Text ''What is the term?'') Absent))))
     = Sent \<lparr>status = 400, json = Error ''No contract file uploaded.''\<rparr>"
  by (simp add: post_query_no_file no_upload_def form_of_def)

text \<open>
  Two kinds of \<^verbatim>\<open>sessionId\<close> on which the statement above is silent.
  \<^verbatim>\<open>paidSessions\<close> is created by \<^verbatim>\<open>{}\<close>, so \<^verbatim>\<open>paidSessions['constructor']\<close> is the
  inherited function, which is truthy: a request naming such a session passes the payment
  check on a server that never recorded any payment, and reaches extraction and the
  completion call. And a \<^verbatim>\<open>sessionId\<close> that is an object without a prototype cannot
  be made a property key: line 72 throws, and the handler sends no response.
\<close>

lemma inherited_name_passes_payment_check:
  "''constructor'' \<notin> paidSessions fresh_server \<and>
   fst (snd (post_query sample_world fresh_server
               (Multipart (upload_of ''lease.txt'' (Text ''What is the term?'')
                             (Text ''constructor'')))))
     = Sent \<lparr>status = 200, json = Answer ''12 months.''\<rparr>"
proof -
  let ?mp = "upload_of ''lease.txt'' (Text ''What is the term?'') (Text ''constructor'')"
  let ?s = "fresh_server\<lparr>disk := (disk fresh_server)(tmp_path sample_world \<mapsto> term_bytes)\<rparr>"
  let ?f = "\<lparr>originalname = ''lease.txt'', path = tmp_path sample_world\<rparr>"
  let ?req = "\<lparr>req_file = Some ?f, req_body = Some (form ?mp)\<rparr>"
  have c: "contract ?mp = Some (''lease.txt'', term_bytes)" by (simp add: upload_of_def)
  have n: "basename ''lease.txt'' \<noteq> []" by (simp add: basename_samples)
  have q: "\<not> no_question (form ?mp ''question'')"
    "to_string (form ?mp ''question'') = Inr ''What is the term?''"
    by (simp_all add: upload_of_def form_of_def isWhiteSpace_def text_question)
  have p: "payment_required (paidSessions ?s) (form ?mp ''sessionId'') = Inr False"
    by (simp add: upload_of_def form_of_def payment_required_def get_truthy_def
        Object_prototype_def)
  have x: "extractText sample_world (disk ?s) ?f =
             (Inr ''Term'', [ReadFile (tmp_path sample_world)])"
    by (simp add: extractText_present sample_extensions sample_world_facts(3))
  have tr: "trim '' 12 months. '' = ''12 months.''" by code_simp
  have a: "answer_of (Completion (Some [Choice (Some (Message (Some '' 12 months. '')))]))
             = ''12 months.''"
    by (simp add: answer_of_def tr)
  have "fst (snd (post_query sample_world fresh_server (Multipart ?mp)))
          = Sent \<lparr>status = 200, json = Answer ''12 months.''\<rparr>"
    unfolding post_query_file [OF c n] basename_samples
    using query_completion [where req = ?req and flds = "form ?mp" and f = ?f
        and w = sample_world and s = ?s, OF _ _ q(1) p x sample_world_facts(2) q(2)] a
    by (simp add: sample_world_def)
  then show ?thesis by (simp add: fresh_server_def)
qed

lemma nested_session_throws:
  "post_query sample_world fresh_server
     (Multipart (upload_of ''lease.txt'' (Text ''What is the term?'') Bare))
   = (fresh_server\<lparr>disk := (disk fresh_server)(tmp_path sample_world \<mapsto> term_bytes)\<rparr>,
      Uncaught TypeError, [])"
proof -
  let ?mp = "upload_of ''lease.txt'' (Text ''What is the term?'') Bare"
  have c: "contract ?mp = Some (''lease.txt'', term_bytes)" by (simp add: upload_of_def)
  have n: "basename ''lease.txt'' \<noteq> []" by (simp add: basename_samples)
  have q: "\<not> no_question (form ?mp ''question'')"
    by (simp add: upload_of_def form_of_def isWhiteSpace_def text_question)
  have p: "payment_required (paidSessions fresh_server) (form ?mp ''sessionId'') = Inl TypeError"
    by (simp add: upload_of_def form_of_def payment_required_def)
  show ?thesis
    by (simp add: post_query_file [OF c n] query_payment_throws q p)
qed

text \<open>A request that passes the payment check is answered, with 200 or 500.\<close>

lemma query_passed_outcome:
  assumes "req_body req = Some flds" "req_file req = Some f"
    and "\<not> no_question (flds ''question'')"
    and "payment_required (paidSessions s) (flds ''sessionId'') = Inr False"
  shows "\<exists>r. fst (snd (query w s req)) = Sent r \<and> (status r = 200 \<or> status r = 500)"
proof -
  obtain x eff where x: "extractText w (disk s) f = (x, eff)"
    by (cases "extractText w (disk s) f")
  from question_is_text [OF assms(3)] obtain q where q: "to_string (flds ''question'') = Inr q"
    by blast
  show ?thesis
  proof (cases x)
    case (Inl err)
    with x have "extractText w (disk s) f = (Inl err, eff)" by simp
    from query_extraction_failed [OF assms this] show ?thesis by simp
  next
    case (Inr contractText)
    with x have xt: "extractText w (disk s) f = (Inr contractText, eff)" by simp
    show ?thesis
    proof (cases "some_string (OPENAI_API_KEY w)")
      case True
      from query_completion [OF assms xt True q] show ?thesis
        by (cases "chat_create w (completion_params contractText q)") simp_all
    next
      case False
      from query_no_key [OF assms xt False] show ?thesis by simp
    qed
  qed
qed

lemma payment_required_error: "payment_required paid sid = Inl err \<Longrightarrow> err = TypeError"
  by (cases sid) (auto simp: payment_required_def split: if_splits)

lemma query_payment_outcome:
  assumes "req_body req = Some flds" "req_file req = Some f"
    and "\<not> no_question (flds ''question'')"
  shows "(fst (snd (query w s req))
            = Sent \<lparr>status = 402,
                    json = Error ''Payment required. Please purchase access to ask questions.''\<rparr>)
         = (payment_required (paidSessions s) (flds ''sessionId'') = Inr True)"
    and "(fst (snd (query w s req)) = Uncaught TypeError)
         = (payment_required (paidSessions s) (flds ''sessionId'') = Inl TypeError)"
proof -
  let ?p = "payment_required (paidSessions s) (flds ''sessionId'')"
  consider (throws) "?p = Inl TypeError" | (required) "?p = Inr True" | (passes) "?p = Inr False"
  proof (cases ?p)
    case (Inl err)
    with payment_required_error [of "paidSessions s" "flds ''sessionId''" err] throws
    show ?thesis by simp
  next
    case (Inr b)
    with required passes show ?thesis by (cases b) simp_all
  qed
  then have "(fst (snd (query w s req))
            = Sent \<lparr>status = 402,
                    json = Error ''Payment required. Please purchase access to ask questions.''\<rparr>)
         = (?p = Inr True) \<and>
         (fst (snd (query w s req)) = Uncaught TypeError) = (?p = Inl TypeError)"
  proof cases
    case throws
    from query_payment_throws [OF assms this] throws show ?thesis by simp
  next
    case required
    from query_payment_required [OF assms this] required show ?thesis by simp
  next
    case passes
    from query_passed_outcome [OF assms this, of w] passes show ?thesis by auto
  qed
  then show "(fst (snd (query w s req))
            = Sent \<lparr>status = 402,
                    json = Error ''Payment required. Please purchase access to ask questions.''\<rparr>)
         = (?p = Inr True)"
    and "(fst (snd (query w s req)) = Uncaught TypeError) = (?p = Inl TypeError)"
    by simp_all
qed

text \<open>
  C9. The outcome of the payment check depends on the \<^verbatim>\<open>sessionId\<close> field and on
  \<^verbatim>\<open>paidSessions\<close> alone. For two multipart requests that both reach the check (a file
  and a question that is not blank), with the same \<^verbatim>\<open>sessionId\<close>, on servers with the
  same \<^verbatim>\<open>paidSessions\<close>, in any two worlds, and whatever else the forms contain (a
  field \<^verbatim>\<open>paid\<close> included): one is answered 402 exactly when the other is, one throws
  at the check exactly when the other does, and which of the three it is, 402, throw or
  pass, is the value of the test of line 72 on the \<^verbatim>\<open>sessionId\<close> and
  \<^verbatim>\<open>paidSessions\<close>.
\<close>

theorem payment_decision_inputs:
  assumes "contract mp1 = Some (filename1, bytes1)" "basename filename1 \<noteq> []"
    and "contract mp2 = Some (filename2, bytes2)" "basename filename2 \<noteq> []"
    and "\<not> no_question (form mp1 ''question'')" "\<not> no_question (form mp2 ''question'')"
    and "form mp1 ''sessionId'' = form mp2 ''sessionId''"
    and "paidSessions s1 = paidSessions s2"
  shows "(fst (snd (post_query w1 s1 (Multipart mp1)))
            = Sent \<lparr>status = 402,
                    json = Error ''Payment required. Please purchase access to ask questions.''\<rparr>)
         = (fst (snd (post_query w2 s2 (Multipart mp2)))
            = Sent \<lparr>status = 402,
                    json = Error ''Payment required. Please purchase access to ask questions.''\<rparr>) \<and>
         (fst (snd (post_query w1 s1 (Multipart mp1))) = Uncaught TypeError)
         = (fst (snd (post_query w2 s2 (Multipart mp2))) = Uncaught TypeError) \<and>
         (fst (snd (post_query w1 s1 (Multipart mp1)))
            = Sent \<lparr>status = 402,
                    json = Error ''Payment required. Please purchase access to ask questions.''\<rparr>)
         = (payment_required (paidSessions s1) (form mp1 ''sessionId'') = Inr True) \<and>
         (fst (snd (post_query w1 s1 (Multipart mp1))) = Uncaught TypeError)
         = (payment_required (paidSessions s1) (form mp1 ''sessionId'') = Inl TypeError)"
proof -
  let ?r402 = "Sent \<lparr>status = 402,
                    json = Error ''Payment required. Please purchase access to ask questions.''\<rparr>"
  let ?s1 = "s1\<lparr>disk := (disk s1)(tmp_path w1 \<mapsto> bytes1)\<rparr>"
  let ?s2 = "s2\<lparr>disk := (disk s2)(tmp_path w2 \<mapsto> bytes2)\<rparr>"
  let ?q1 = "\<lparr>req_file = Some \<lparr>originalname = basename filename1, path = tmp_path w1\<rparr>,
             req_body = Some (form mp1)\<rparr>"
  let ?q2 = "\<lparr>req_file = Some \<lparr>originalname = basename filename2, path = tmp_path w2\<rparr>,
             req_body = Some (form mp2)\<rparr>"
  have a1: "(fst (snd (post_query w1 s1 (Multipart mp1))) = ?r402)
           = (payment_required (paidSessions s1) (form mp1 ''sessionId'') = Inr True)"
    and b1: "(fst (snd (post_query w1 s1 (Multipart mp1))) = Uncaught TypeError)
           = (payment_required (paidSessions s1) (form mp1 ''sessionId'') = Inl TypeError)"
    unfolding post_query_file [OF assms(1,2)]
    using query_payment_outcome [where req = ?q1 and flds = "form mp1" and s = ?s1 and w = w1,
        OF _ _ assms(5)]
    by simp_all
  have a2: "(fst (snd (post_query w2 s2 (Multipart mp2))) = ?r402)
           = (payment_required (paidSessions s2) (form mp2 ''sessionId'') = Inr True)"
    and b2: "(fst (snd (post_query w2 s2 (Multipart mp2))) = Uncaught TypeError)
           = (payment_required (paidSessions s2) (form mp2 ''sessionId'') = Inl TypeError)"
    unfolding post_query_file [OF assms(3,4)]
    using query_payment_outcome [where req = ?q2 and flds = "form mp2" and s = ?s2 and w = w2,
        OF _ _ assms(6)]
    by simp_all
  have e: "payment_required (paidSessions s2) (form mp2 ''sessionId'')
         = payment_required (paidSessions s1) (form mp1 ''sessionId'')"
    by (simp only: assms(7,8))
  show ?thesis
    unfolding a1 b1 a2 b2 e by simp
qed

text \<open>C9, witness: two uploads naming the unrecorded session \<^verbatim>\<open>cs_open\<close>, the second
  with another file, another question, another world and a form field \<^verbatim>\<open>paid=true\<close>;
  both are answered 402.\<close>

theorem payment_decision_inputs_witness:
  "contract unpaid_upload = Some (''lease.txt'', term_bytes) \<and>
   contract other_upload = Some (''Lease.PDF'', term_bytes) \<and>
   basename ''lease.txt'' \<noteq> [] \<and> basename ''Lease.PDF'' \<noteq> [] \<and>
   \<not> no_question (form unpaid_upload ''question'') \<and>
   \<not> no_question (form other_upload ''question'') \<and>
   form unpaid_upload ''sessionId'' = form other_upload ''sessionId'' \<and>
   form other_upload ''paid'' = Text ''true'' \<and> form unpaid_upload ''paid'' = Absent \<and>
   paidSessions fresh_server = paidSessions (fresh_server\<lparr>stripe := False\<rparr>) \<and>
   fst (snd (post_query sample_world fresh_server (Multipart unpaid_upload)))
     = Sent \<lparr>status = 402,
             json = Error ''Payment required. Please purchase access to ask questions.''\<rparr> \<and>
   fst (snd (post_query keyless_world (fresh_server\<lparr>stripe := False\<rparr>) (Multipart other_upload)))
     = Sent \<lparr>status = 402,
             json = Error ''Payment required. Please purchase access to ask questions.''\<rparr>"
proof -
  have n: "basename ''lease.txt'' \<noteq> []" "basename ''Lease.PDF'' \<noteq> []"
    by (simp_all add: basename_samples)
  have o: "contract other_upload = Some (''Lease.PDF'', term_bytes)"
    "\<not> no_question (form other_upload ''question'')"
    "form unpaid_upload ''sessionId'' = form other_upload ''sessionId''"
    "paidSessions fresh_server = paidSessions (fresh_server\<lparr>stripe := False\<rparr>)"
    by (simp_all add: unpaid_upload_def other_upload_def claiming_paid_def upload_of_def form_of_def
        text_question isWhiteSpace_def)
  have e: "form other_upload ''paid'' = Text ''true''" "form unpaid_upload ''paid'' = Absent"
    by (simp_all add: unpaid_upload_def other_upload_def claiming_paid_def upload_of_def form_of_def)
  note r = payment_decision_inputs
    [OF unpaid_upload_facts(1) n(1) o(1) n(2) unpaid_upload_facts(2) o(2) o(3) o(4),
     of sample_world keyless_world]
  from r unpaid_upload_facts(4)
  have a: "fst (snd (post_query sample_world fresh_server (Multipart unpaid_upload)))
     = Sent \<lparr>status = 402,
             json = Error ''Payment required. Please purchase access to ask questions.''\<rparr>"
    by blast
  from r a
  have b: "fst (snd (post_query keyless_world (fresh_server\<lparr>stripe := False\<rparr>)
      (Multipart other_upload)))
     = Sent \<lparr>status = 402,
             json = Error ''Payment required. Please purchase access to ask questions.''\<rparr>"
    by blast
  show ?thesis
    by (intro conjI) (rule unpaid_upload_facts(1,2) n o e a b)+
qed

section \<open>The registry of paid sessions\<close>

text \<open>
  C3. If \<^verbatim>\<open>GET /api/checkout-session\<close> answers \<^verbatim>\<open>{paid: true}\<close> for an identifier,
  then after any further requests to the server the test of line 72 lets that identifier
  pass; \<^verbatim>\<open>POST /api/query\<close> never calls the payment provider; and no request removes
  a name from \<^verbatim>\<open>paidSessions\<close>.
\<close>

theorem paid_session_stays_paid:
  assumes "fst (snd (checkout_session w s sid)) = Sent \<lparr>status = 200, json = Paid True\<rparr>"
  shows "payment_required (paidSessions (run (fst (checkout_session w s sid)) rs)) sid
           = Inr False \<and>
         (\<forall>e \<in> set (snd (snd (post_query w' s' b))). \<not> stripe_call e) \<and>
         paidSessions s' \<subseteq> paidSessions (run s' rs')"
proof -
  let ?s1 = "fst (checkout_session w s sid)"
  from assms have t: "truthy sid" by (simp add: checkout_session_paid)
  from assms obtain k where k: "to_string sid = Inr k"
    by (auto simp: checkout_session_paid)
  from assms k have "paidSessions ?s1 = set_true (paidSessions s) k"
    by (simp add: checkout_session_paid_state)
  then have "get_truthy (paidSessions ?s1) k"
    by (simp add: get_truthy_set_true)
  then have "get_truthy (paidSessions (run ?s1 rs)) k"
    by (rule get_truthy_mono [OF run_grows])
  with t k have "payment_required (paidSessions (run ?s1 rs)) sid = Inr False"
    by (simp add: payment_required_def)
  then show ?thesis
    using post_query_no_stripe_call [of w' s' b] run_grows [of s' rs'] by simp
qed

text \<open>C3, witness: \<^verbatim>\<open>cs_paid\<close> is verified on a fresh server, and six more requests
  follow, two of which make the query handler throw.\<close>

theorem paid_session_stays_paid_witness:
  "fst (snd (checkout_session sample_world fresh_server (Text ''cs_paid'')))
     = Sent \<lparr>status = 200, json = Paid True\<rparr> \<and>
   payment_required
       (paidSessions (run (fst (checkout_session sample_world fresh_server (Text ''cs_paid'')))
          later_requests))
       (Text ''cs_paid'') = Inr False"
proof -
  have h: "fst (snd (checkout_session sample_world fresh_server (Text ''cs_paid'')))
     = Sent \<lparr>status = 200, json = Paid True\<rparr>"
    by (simp add: checkout_session_def sample_world_def fresh_server_def)
  from paid_session_stays_paid [OF h, of later_requests] have
    "payment_required
       (paidSessions (run (fst (checkout_session sample_world fresh_server (Text ''cs_paid'')))
          later_requests))
       (Text ''cs_paid'') = Inr False" by blast
  with h show ?thesis by (intro conjI)
qed

text \<open>
  C8. Once \<^verbatim>\<open>GET /api/checkout-session\<close> has answered \<^verbatim>\<open>{paid: true}\<close> for an
  identifier, a second call for the same identifier, whatever the provider answers then,
  leaves \<^verbatim>\<open>paidSessions\<close>, and the whole server state, as the first call left it.
\<close>

theorem verify_twice_same_registry:
  assumes "fst (snd (checkout_session w s sid)) = Sent \<lparr>status = 200, json = Paid True\<rparr>"
  shows "paidSessions (fst (checkout_session w' (fst (checkout_session w s sid)) sid)) =
         paidSessions (fst (checkout_session w s sid)) \<and>
         fst (checkout_session w' (fst (checkout_session w s sid)) sid)
           = fst (checkout_session w s sid)"
proof -
  let ?s1 = "fst (checkout_session w s sid)"
  from assms obtain k where k: "to_string sid = Inr k"
    by (auto simp: checkout_session_paid)
  have s1: "?s1 = s\<lparr>paidSessions := set_true (paidSessions s) k\<rparr>"
    using assms k by (rule checkout_session_paid_state)
  have idem: "set_true (set_true (paidSessions s) k) k = set_true (paidSessions s) k"
    by (simp add: set_true_def)
  have "fst (checkout_session w' ?s1 sid) = ?s1"
    unfolding s1 by (simp add: checkout_session_def Let_def idem k split: option.splits)
  then show ?thesis by simp
qed

text \<open>C8, witness: after two verifications of \<^verbatim>\<open>cs_paid\<close> the registry holds that one
  name.\<close>

theorem verify_twice_same_registry_witness:
  "fst (snd (checkout_session sample_world fresh_server (Text ''cs_paid'')))
     = Sent \<lparr>status = 200, json = Paid True\<rparr> \<and>
   paidSessions (fst (checkout_session sample_world
       (fst (checkout_session sample_world fresh_server (Text ''cs_paid''))) (Text ''cs_paid''))) =
     {''cs_paid''}"
proof -
  have h: "fst (snd (checkout_session sample_world fresh_server (Text ''cs_paid'')))
     = Sent \<lparr>status = 200, json = Paid True\<rparr>"
    by (simp add: checkout_session_def sample_world_def fresh_server_def)
  have one: "paidSessions (fst (checkout_session sample_world fresh_server (Text ''cs_paid'')))
     = {''cs_paid''}"
    by (simp add: checkout_session_def sample_world_def fresh_server_def set_true_def)
  from verify_twice_same_registry [OF h, of sample_world] one
  have "paidSessions (fst (checkout_session sample_world
       (fst (checkout_session sample_world fresh_server (Text ''cs_paid''))) (Text ''cs_paid''))) =
     {''cs_paid''}" by simp
  with h show ?thesis by (intro conjI)
qed

section \<open>Extraction\<close>

text \<open>
  C5. With the bytes of the upload read from disk: when the extension of the uploaded
  name, by \<^verbatim>\<open>path.extname\<close>, is \<^verbatim>\<open>.pdf\<close> in any mix of upper and lower case, the
  bytes go to the PDF parser, whose text is the result, and a failure of the parser is
  an extraction error; for every other extension the result is the UTF-8 decoding of the
  bytes, with no parser called. An extraction error is answered 500.
\<close>

theorem extractText_by_extension:
  assumes "d (path f) = Some buffer"
  shows "(toLowerCase (extname (originalname f)) = ''.pdf'' \<longleftrightarrow>
            (\<exists>p d f'. extname (originalname f) = [CHR ''.'', p, d, f'] \<and>
               (p = CHR ''p'' \<or> p = CHR ''P'') \<and> (d = CHR ''d'' \<or> d = CHR ''D'') \<and>
               (f' = CHR ''f'' \<or> f' = CHR ''F''))) \<and>
         (toLowerCase (extname (originalname f)) = ''.pdf'' \<longrightarrow>
            extractText w d f =
              (case pdf w buffer of
                 Some contractText \<Rightarrow> (Inr contractText, [ReadFile (path f), PdfParse buffer])
               | None \<Rightarrow> (Inl PdfError, [ReadFile (path f), PdfParse buffer]))) \<and>
         (toLowerCase (extname (originalname f)) \<noteq> ''.pdf'' \<longrightarrow>
            extractText w d f = (Inr (utf8 w buffer), [ReadFile (path f)])) \<and>
         (\<forall>s req flds err eff.
            req_body req = Some flds \<and> req_file req = Some f \<and>
            \<not> no_question (flds ''question'') \<and>
            payment_required (paidSessions s) (flds ''sessionId'') = Inr False \<and>
            extractText w (disk s) f = (Inl err, eff) \<longrightarrow>
            fst (snd (query w s req)) =
              Sent \<lparr>status = 500, json = Error ''Failed to read uploaded file.''\<rparr>)"
proof (intro conjI)
  show "toLowerCase (extname (originalname f)) = ''.pdf'' \<longleftrightarrow>
            (\<exists>p d f'. extname (originalname f) = [CHR ''.'', p, d, f'] \<and>
               (p = CHR ''p'' \<or> p = CHR ''P'') \<and> (d = CHR ''d'' \<or> d = CHR ''D'') \<and>
               (f' = CHR ''f'' \<or> f' = CHR ''F''))"
    by (rule toLowerCase_pdf_iff)
  show "toLowerCase (extname (originalname f)) = ''.pdf'' \<longrightarrow>
            extractText w d f =
              (case pdf w buffer of
                 Some contractText \<Rightarrow> (Inr contractText, [ReadFile (path f), PdfParse buffer])
               | None \<Rightarrow> (Inl PdfError, [ReadFile (path f), PdfParse buffer]))"
    using assms by (simp add: extractText_present)
  show "toLowerCase (extname (originalname f)) \<noteq> ''.pdf'' \<longrightarrow>
            extractText w d f = (Inr (utf8 w buffer), [ReadFile (path f)])"
    using assms by (simp add: extractText_present)
  show "\<forall>s req flds err eff.
            req_body req = Some flds \<and> req_file req = Some f \<and>
            \<not> no_question (flds ''question'') \<and>
            payment_required (paidSessions s) (flds ''sessionId'') = Inr False \<and>
            extractText w (disk s) f = (Inl err, eff) \<longrightarrow>
            fst (snd (query w s req)) =
              Sent \<lparr>status = 500, json = Error ''Failed to read uploaded file.''\<rparr>"
    by (auto simp: query_extraction_failed)
qed

text \<open>C5, witness: the same four bytes uploaded as \<^verbatim>\<open>Lease.PDF\<close> and as
  \<^verbatim>\<open>lease.txt\<close>.\<close>

theorem extractText_by_extension_witness:
  "upload_disk (path pdf_file) = Some term_bytes \<and>
   upload_disk (path txt_file) = Some term_bytes \<and>
   toLowerCase (extname (originalname pdf_file)) = ''.pdf'' \<and>
   toLowerCase (extname (originalname txt_file)) = ''.txt'' \<and>
   extractText sample_world upload_disk pdf_file =
     (Inr ''Term: 12 months'', [ReadFile ''uploads/3f9a'', PdfParse term_bytes]) \<and>
   extractText sample_world upload_disk txt_file = (Inr ''Term'', [ReadFile ''uploads/3f9a''])"
proof -
  have h: "upload_disk (path pdf_file) = Some term_bytes"
    "upload_disk (path txt_file) = Some term_bytes"
    by (simp_all add: upload_disk_def pdf_file_def txt_file_def)
  have n: "originalname pdf_file = ''Lease.PDF''" "originalname txt_file = ''lease.txt''"
    "path pdf_file = ''uploads/3f9a''" "path txt_file = ''uploads/3f9a''"
    by (simp_all add: pdf_file_def txt_file_def)
  from extractText_by_extension
      [where d = upload_disk and f = pdf_file and buffer = term_bytes and w = sample_world, OF h(1)]
    extractText_by_extension
      [where d = upload_disk and f = txt_file and buffer = term_bytes and w = sample_world, OF h(2)]
    h sample_extensions sample_world_facts(3,4)
  show ?thesis by (simp add: n)
qed

text \<open>
  C10. For every request that passes the validation and the payment check, the handler
  reads the temporary file and removes it, whatever comes next. When the environment has
  no \<^verbatim>\<open>OPENAI_API_KEY\<close> the response is a 500 and no completion is requested, and if
  the extraction succeeded it is the 500 of the missing key, sent after the calls of the
  extraction and the removal of the file.
\<close>

theorem missing_key_checked_after_cleanup:
  assumes "contract mp = Some (filename, bytes)" and "basename filename \<noteq> []"
    and "\<not> no_question (form mp ''question'')"
    and "payment_required (paidSessions s) (form mp ''sessionId'') = Inr False"
  shows "ReadFile (tmp_path w) \<in> set (snd (snd (post_query w s (Multipart mp)))) \<and>
         Unlink (tmp_path w) \<in> set (snd (snd (post_query w s (Multipart mp)))) \<and>
         disk (fst (post_query w s (Multipart mp))) (tmp_path w) = None \<and>
         (\<not> some_string (OPENAI_API_KEY w) \<longrightarrow>
            (\<exists>r. fst (snd (post_query w s (Multipart mp))) = Sent r \<and> status r = 500) \<and>
            filter completion_call (snd (snd (post_query w s (Multipart mp)))) = [] \<and>
            (\<forall>contractText eff.
               extractText w ((disk s)(tmp_path w \<mapsto> bytes))
                 \<lparr>originalname = basename filename, path = tmp_path w\<rparr>
                 = (Inr contractText, eff) \<longrightarrow>
               post_query w s (Multipart mp) =
                 (s\<lparr>disk := (disk s)(tmp_path w := None)\<rparr>,
                  Sent \<lparr>status = 500,
                         json = Error ''Server is misconfigured: missing OpenAI API key.''\<rparr>,
                  eff @ [Unlink (tmp_path w)])))"
proof -
  let ?s = "s\<lparr>disk := (disk s)(tmp_path w \<mapsto> bytes)\<rparr>"
  let ?f = "\<lparr>originalname = basename filename, path = tmp_path w\<rparr>"
  let ?req = "\<lparr>req_file = Some ?f, req_body = Some (form mp)\<rparr>"
  have pq: "post_query w s (Multipart mp) = query w ?s ?req"
    by (rule post_query_file [OF assms(1,2)])
  have b: "req_body ?req = Some (form mp)" and f: "req_file ?req = Some ?f" by simp_all
  have g: "payment_required (paidSessions ?s) (form mp ''sessionId'') = Inr False"
    using assms(4) by simp
  from question_is_text [OF assms(3)] obtain q where q: "to_string (form mp ''question'') = Inr q"
    by blast
  obtain x eff where x: "extractText w (disk ?s) ?f = (x, eff)"
    by (cases "extractText w (disk ?s) ?f")
  have rd: "ReadFile (tmp_path w) \<in> set eff"
    using extractText_reads [of ?f w "disk ?s"] x by simp
  have nc: "filter completion_call eff = []"
    using extractText_no_completion [of w "disk ?s" ?f] x by simp
  have ul: "try_unlink (disk ?s) (path ?f) = (disk s)(tmp_path w := None)"
    by (simp add: try_unlink_upload)
  show ?thesis
  proof (cases x)
    case (Inl err)
    with x have xe: "extractText w (disk ?s) ?f = (Inl err, eff)" by simp
    have "query w ?s ?req =
        (?s\<lparr>disk := try_unlink (disk ?s) (path ?f)\<rparr>,
         Sent \<lparr>status = 500, json = Error ''Failed to read uploaded file.''\<rparr>,
         eff @ [Unlink (path ?f)])"
      by (rule query_extraction_failed [OF b f assms(3) g xe])
    with rd nc ul xe show ?thesis unfolding pq by simp
  next
    case (Inr contractText)
    with x have xt: "extractText w (disk ?s) ?f = (Inr contractText, eff)" by simp
    show ?thesis
    proof (cases "some_string (OPENAI_API_KEY w)")
      case True
      from query_completion [OF b f assms(3) g xt True q] rd ul True
      show ?thesis unfolding pq by simp
    next
      case False
      from query_no_key [OF b f assms(3) g xt False] rd nc ul xt
      show ?thesis unfolding pq by simp
    qed
  qed
qed

text \<open>C10, witness: a paid upload of \<^verbatim>\<open>Lease.PDF\<close> to a server without the key.\<close>

theorem missing_key_checked_after_cleanup_witness:
  "contract (paid_upload ''Lease.PDF'') = Some (''Lease.PDF'', term_bytes) \<and>
   basename ''Lease.PDF'' \<noteq> [] \<and>
   \<not> no_question (form (paid_upload ''Lease.PDF'') ''question'') \<and>
   payment_required (paidSessions paid_server) (form (paid_upload ''Lease.PDF'') ''sessionId'')
     = Inr False \<and>
   \<not> some_string (OPENAI_API_KEY keyless_world) \<and>
   fst (snd (post_query keyless_world paid_server (Multipart (paid_upload ''Lease.PDF''))))
     = Sent \<lparr>status = 500, json = Error ''Server is misconfigured: missing OpenAI API key.''\<rparr> \<and>
   snd (snd (post_query keyless_world paid_server (Multipart (paid_upload ''Lease.PDF''))))
     = [ReadFile ''uploads/3f9a'', PdfParse term_bytes, Unlink ''uploads/3f9a''] \<and>
   disk (fst (post_query keyless_world paid_server (Multipart (paid_upload ''Lease.PDF''))))
     ''uploads/3f9a'' = None"
proof -
  let ?mp = "paid_upload ''Lease.PDF''"
  have n: "basename ''Lease.PDF'' \<noteq> []" by (simp add: basename_samples)
  have k: "\<not> some_string (OPENAI_API_KEY keyless_world)"
    by (simp add: keyless_world_def some_string_def)
  have t: "tmp_path keyless_world = ''uploads/3f9a''"
    by (simp add: keyless_world_def sample_world_def)
  have p: "pdf keyless_world term_bytes = Some ''Term: 12 months''"
    by (simp add: keyless_world_def sample_world_facts(4))
  have x: "extractText keyless_world ((disk paid_server)(tmp_path keyless_world \<mapsto> term_bytes))
             \<lparr>originalname = basename ''Lease.PDF'', path = tmp_path keyless_world\<rparr>
           = (Inr ''Term: 12 months'', [ReadFile (tmp_path keyless_world), PdfParse term_bytes])"
    by (simp add: extractText_present p basename_samples sample_extensions)
  note m = missing_key_checked_after_cleanup
    [OF paid_upload_facts(1) n paid_upload_facts(2) paid_upload_facts(4), of keyless_world]
  from m k x have r: "post_query keyless_world paid_server (Multipart ?mp) =
      (paid_server\<lparr>disk := (disk paid_server)(tmp_path keyless_world := None)\<rparr>,
       Sent \<lparr>status = 500, json = Error ''Server is misconfigured: missing OpenAI API key.''\<rparr>,
       [ReadFile (tmp_path keyless_world), PdfParse term_bytes] @ [Unlink (tmp_path keyless_world)])"
    by blast
  have r1: "fst (snd (post_query keyless_world paid_server (Multipart ?mp)))
     = Sent \<lparr>status = 500, json = Error ''Server is misconfigured: missing OpenAI API key.''\<rparr>"
    and r2: "snd (snd (post_query keyless_world paid_server (Multipart ?mp)))
     = [ReadFile ''uploads/3f9a'', PdfParse term_bytes, Unlink ''uploads/3f9a'']"
    and r3: "disk (fst (post_query keyless_world paid_server (Multipart ?mp))) ''uploads/3f9a'' = None"
    unfolding r by (simp_all add: t)
  show ?thesis
    by (intro conjI) (rule paid_upload_facts(1,2,4) n k r1 r2 r3)+
qed

section \<open>The completion request and the answer\<close>

text \<open>A call of the query handler requests no completion, or exactly one, with the
  extracted text and the question.\<close>

lemma query_completions:
  "filter completion_call (snd (snd (query w s req))) = [] \<or>
   (\<exists>flds f contractText eff q.
      req_body req = Some flds \<and> req_file req = Some f \<and>
      extractText w (disk s) f = (Inr contractText, eff) \<and>
      to_string (flds ''question'') = Inr q \<and>
      filter completion_call (snd (snd (query w s req))) =
        [ChatCreate (completion_params contractText q)])"
proof (cases "req_body req")
  case None
  then show ?thesis by (simp add: query_def)
next
  case b: (Some flds)
  show ?thesis
  proof (cases "req_file req")
    case None
    with b show ?thesis by (simp add: query_def)
  next
    case (Some f)
    show ?thesis
    proof (cases "no_question (flds ''question'')")
      case True
      from query_no_question [OF b Some True] show ?thesis by simp
    next
      case q: False
      from question_is_text [OF q] obtain qq where qq: "to_string (flds ''question'') = Inr qq"
        by blast
      show ?thesis
      proof (cases "payment_required (paidSessions s) (flds ''sessionId'')")
        case (Inl err)
        from query_payment_throws [OF b Some q Inl] show ?thesis by simp
      next
        case (Inr required)
        show ?thesis
        proof (cases required)
          case True
          with Inr have "payment_required (paidSessions s) (flds ''sessionId'') = Inr True"
            by simp
          from query_payment_required [OF b Some q this] show ?thesis by simp
        next
          case False
          with Inr have g: "payment_required (paidSessions s) (flds ''sessionId'') = Inr False"
            by simp
          obtain x eff where x: "extractText w (disk s) f = (x, eff)"
            by (cases "extractText w (disk s) f")
          from extractText_no_completion [of w "disk s" f] x
          have e: "filter completion_call eff = []" by simp
          show ?thesis
          proof (cases x)
            case (Inl err)
            with x have "extractText w (disk s) f = (Inl err, eff)" by simp
            from query_extraction_failed [OF b Some q g this] e show ?thesis by simp
          next
            case (Inr contractText)
            with x have xt: "extractText w (disk s) f = (Inr contractText, eff)" by simp
            show ?thesis
            proof (cases "some_string (OPENAI_API_KEY w)")
              case True
              from query_completion [OF b Some q g xt True qq] e b Some xt qq
              show ?thesis by simp
            next
              case False
              from query_no_key [OF b Some q g xt False] e show ?thesis by simp
            qed
          qed
        qed
      qed
    qed
  qed
qed

text \<open>
  C6. The argument of the completion call has the model \<^verbatim>\<open>gpt-4o\<close>, exactly two
  messages, the system message with the text of lines 104-106 and the user message
  \<^verbatim>\<open>Contract:\n\n{contractText}\n\nQuestion: {question}\<close>, the temperature 0.2 and
  \<^verbatim>\<open>max_tokens\<close> 512. A call of \<^verbatim>\<open>POST /api/query\<close> requests at most one completion;
  and a multipart request with a file and a question, a session that passes the payment
  check, a successful extraction and an API key in the environment does request one,
  after the extraction and the removal of the file, with the extracted text and the
  question of the form as the two parameters.
\<close>

theorem completion_request_shape:
  "model (completion_params contractText question) = ''gpt-4o'' \<and>
   messages (completion_params contractText question) =
     [(''system'',
       ''You are a knowledgeable legal assistant. Answer the user'' @ [CHR 0x27] @
       ''s questions about the provided contract. '' @
       ''Only use information contained in the contract and avoid making assumptions. '' @
       ''If the contract does not specify the answer, respond that the information is not available.''),
      (''user'', ''Contract:'' @ [CHR 0x0A, CHR 0x0A] @ contractText @ [CHR 0x0A, CHR 0x0A] @
                 ''Question: '' @ question)] \<and>
   length (messages (completion_params contractText question)) = 2 \<and>
   temperature (completion_params contractText question) = 2 / 10 \<and>
   max_tokens (completion_params contractText question) = 512 \<and>
   (filter completion_call (snd (snd (post_query w s b))) = [] \<or>
    (\<exists>ct q. filter completion_call (snd (snd (post_query w s b)))
               = [ChatCreate (completion_params ct q)])) \<and>
   (\<forall>mp filename bytes ct eff q.
      b = Multipart mp \<and> contract mp = Some (filename, bytes) \<and> basename filename \<noteq> [] \<and>
      \<not> no_question (form mp ''question'') \<and> to_string (form mp ''question'') = Inr q \<and>
      payment_required (paidSessions s) (form mp ''sessionId'') = Inr False \<and>
      extractText w ((disk s)(tmp_path w \<mapsto> bytes))
        \<lparr>originalname = basename filename, path = tmp_path w\<rparr> = (Inr ct, eff) \<and>
      some_string (OPENAI_API_KEY w) \<longrightarrow>
      snd (snd (post_query w s b))
        = eff @ [Unlink (tmp_path w), ChatCreate (completion_params ct q)])"
proof -
  have shape: "model (completion_params contractText question) = ''gpt-4o''"
    "messages (completion_params contractText question) =
     [(''system'',
       ''You are a knowledgeable legal assistant. Answer the user'' @ [CHR 0x27] @
       ''s questions about the provided contract. '' @
       ''Only use information contained in the contract and avoid making assumptions. '' @
       ''If the contract does not specify the answer, respond that the information is not available.''),
      (''user'', ''Contract:'' @ [CHR 0x0A, CHR 0x0A] @ contractText @ [CHR 0x0A, CHR 0x0A] @
                 ''Question: '' @ question)]"
    "length (messages (completion_params contractText question)) = 2"
    "temperature (completion_params contractText question) = 2 / 10"
    "max_tokens (completion_params contractText question) = 512"
    by (simp_all add: completion_params_def systemPrompt_def)
  have most: "filter completion_call (snd (snd (post_query w s b))) = [] \<or>
    (\<exists>ct q. filter completion_call (snd (snd (post_query w s b)))
               = [ChatCreate (completion_params ct q)])"
  proof -
    obtain d req where u: "upload_single (tmp_path w) (disk s) b = (d, req)"
      by (cases "upload_single (tmp_path w) (disk s) b")
    from query_completions [of w "s\<lparr>disk := d\<rparr>" req] show ?thesis
      unfolding post_query_def u by auto
  qed
  have sends: "\<forall>mp filename bytes ct eff q.
      b = Multipart mp \<and> contract mp = Some (filename, bytes) \<and> basename filename \<noteq> [] \<and>
      \<not> no_question (form mp ''question'') \<and> to_string (form mp ''question'') = Inr q \<and>
      payment_required (paidSessions s) (form mp ''sessionId'') = Inr False \<and>
      extractText w ((disk s)(tmp_path w \<mapsto> bytes))
        \<lparr>originalname = basename filename, path = tmp_path w\<rparr> = (Inr ct, eff) \<and>
      some_string (OPENAI_API_KEY w) \<longrightarrow>
      snd (snd (post_query w s b))
        = eff @ [Unlink (tmp_path w), ChatCreate (completion_params ct q)]"
  proof (intro allI impI)
    fix mp filename bytes ct eff q
    assume a: "b = Multipart mp \<and> contract mp = Some (filename, bytes) \<and> basename filename \<noteq> [] \<and>
      \<not> no_question (form mp ''question'') \<and> to_string (form mp ''question'') = Inr q \<and>
      payment_required (paidSessions s) (form mp ''sessionId'') = Inr False \<and>
      extractText w ((disk s)(tmp_path w \<mapsto> bytes))
        \<lparr>originalname = basename filename, path = tmp_path w\<rparr> = (Inr ct, eff) \<and>
      some_string (OPENAI_API_KEY w)"
    let ?s = "s\<lparr>disk := (disk s)(tmp_path w \<mapsto> bytes)\<rparr>"
    let ?f = "\<lparr>originalname = basename filename, path = tmp_path w\<rparr>"
    let ?req = "\<lparr>req_file = Some ?f, req_body = Some (form mp)\<rparr>"
    from a have c: "contract mp = Some (filename, bytes)" and n: "basename filename \<noteq> []"
      and nq: "\<not> no_question (form mp ''question'')"
      and q: "to_string (form mp ''question'') = Inr q"
      and g: "payment_required (paidSessions ?s) (form mp ''sessionId'') = Inr False"
      and x: "extractText w (disk ?s) ?f = (Inr ct, eff)"
      and k: "some_string (OPENAI_API_KEY w)"
      by simp_all
    from a have bm: "b = Multipart mp" by simp
    from query_completion [where req = ?req and flds = "form mp" and f = ?f and s = ?s and w = w,
        OF _ _ nq g x k q]
    show "snd (snd (post_query w s b))
        = eff @ [Unlink (tmp_path w), ChatCreate (completion_params ct q)]"
      unfolding bm post_query_file [OF c n] by simp
  qed
  from shape most sends show ?thesis by blast
qed

text \<open>C6, witness: the request sent for a paid upload of \<^verbatim>\<open>lease.txt\<close>.\<close>

theorem completion_request_shape_witness:
  "contract (paid_upload ''lease.txt'') = Some (''lease.txt'', term_bytes) \<and>
   basename ''lease.txt'' \<noteq> [] \<and>
   \<not> no_question (form (paid_upload ''lease.txt'') ''question'') \<and>
   to_string (form (paid_upload ''lease.txt'') ''question'') = Inr ''What is the term?'' \<and>
   payment_required (paidSessions paid_server) (form (paid_upload ''lease.txt'') ''sessionId'')
     = Inr False \<and>
   some_string (OPENAI_API_KEY sample_world) \<and>
   snd (snd (post_query sample_world paid_server (Multipart (paid_upload ''lease.txt''))))
     = [ReadFile ''uploads/3f9a'', Unlink ''uploads/3f9a'',
        ChatCreate (completion_params ''Term'' ''What is the term?'')] \<and>
   max_tokens (completion_params ''Term'' ''What is the term?'') = 512"
proof -
  let ?mp = "paid_upload ''lease.txt''"
  have n: "basename ''lease.txt'' \<noteq> []" by (simp add: basename_samples)
  have x: "extractText sample_world
             ((disk paid_server)(tmp_path sample_world \<mapsto> term_bytes))
             \<lparr>originalname = basename ''lease.txt'', path = tmp_path sample_world\<rparr>
           = (Inr ''Term'', [ReadFile (tmp_path sample_world)])"
    by (simp add: extractText_present basename_samples sample_extensions sample_world_facts(3))
  note sh = completion_request_shape
    [of "''Term''" "''What is the term?''" sample_world paid_server "Multipart ?mp"]
  from sh have t: "max_tokens (completion_params ''Term'' ''What is the term?'') = 512"
    by blast
  from sh paid_upload_facts [of "''lease.txt''"] n x sample_world_facts(2)
  have "snd (snd (post_query sample_world paid_server (Multipart ?mp)))
     = [ReadFile (tmp_path sample_world)]
       @ [Unlink (tmp_path sample_world),
          ChatCreate (completion_params ''Term'' ''What is the term?'')]"
    by blast
  then have e: "snd (snd (post_query sample_world paid_server (Multipart ?mp)))
     = [ReadFile ''uploads/3f9a'', Unlink ''uploads/3f9a'',
        ChatCreate (completion_params ''Term'' ''What is the term?'')]"
    by (simp add: sample_world_facts(1))
  show ?thesis
    by (intro conjI) (rule paid_upload_facts n sample_world_facts(2) e t)+
qed

text \<open>
  C7. When the completion call returns, the response is 200 with the answer computed by
  line 127: the content of the first choice with the white space at both ends removed,
  and the empty string when there are no choices, or the first choice has no message, no
  content or an empty content.
\<close>

theorem answer_from_first_choice:
  assumes "contract mp = Some (filename, bytes)" and "basename filename \<noteq> []"
    and "\<not> no_question (form mp ''question'')"
    and "payment_required (paidSessions s) (form mp ''sessionId'') = Inr False"
    and "extractText w ((disk s)(tmp_path w \<mapsto> bytes))
           \<lparr>originalname = basename filename, path = tmp_path w\<rparr> = (Inr contractText, eff)"
    and "some_string (OPENAI_API_KEY w)"
    and "to_string (form mp ''question'') = Inr q"
    and "chat_create w (completion_params contractText q) = Some c"
  shows "fst (snd (post_query w s (Multipart mp)))
           = Sent \<lparr>status = 200, json = Answer (answer_of c)\<rparr> \<and>
         (\<forall>t rest. choices c = Some (Choice (Some (Message (Some t))) # rest) \<longrightarrow>
            answer_of c = trim t \<and>
            (\<exists>l r. t = l @ trim t @ r \<and> (\<forall>x \<in> set l. isWhiteSpace x) \<and>
                   (\<forall>x \<in> set r. isWhiteSpace x)) \<and>
            (trim t \<noteq> [] \<longrightarrow> \<not> isWhiteSpace (hd (trim t)) \<and> \<not> isWhiteSpace (last (trim t)))) \<and>
         (choices c = None \<or> choices c = Some [] \<or>
          (\<exists>rest. choices c = Some (Choice None # rest)) \<or>
          (\<exists>rest. choices c = Some (Choice (Some (Message None)) # rest)) \<or>
          (\<exists>rest. choices c = Some (Choice (Some (Message (Some []))) # rest))
          \<longrightarrow> answer_of c = [])"
proof (intro conjI allI impI)
  let ?s = "s\<lparr>disk := (disk s)(tmp_path w \<mapsto> bytes)\<rparr>"
  let ?f = "\<lparr>originalname = basename filename, path = tmp_path w\<rparr>"
  let ?req = "\<lparr>req_file = Some ?f, req_body = Some (form mp)\<rparr>"
  have x: "extractText w (disk ?s) ?f = (Inr contractText, eff)" using assms(5) by simp
  have g: "payment_required (paidSessions ?s) (form mp ''sessionId'') = Inr False"
    using assms(4) by simp
  from query_completion [where req = ?req and flds = "form mp" and f = ?f and s = ?s and w = w,
      OF _ _ assms(3) g x assms(6,7)] assms(8)
  show "fst (snd (post_query w s (Multipart mp)))
          = Sent \<lparr>status = 200, json = Answer (answer_of c)\<rparr>"
    unfolding post_query_file [OF assms(1,2)] by simp
next
  fix t rest
  assume "choices c = Some (Choice (Some (Message (Some t))) # rest)"
  then show "answer_of c = trim t" by (simp add: answer_of_def)
next
  fix t :: string
  show "\<exists>l r. t = l @ trim t @ r \<and> (\<forall>x \<in> set l. isWhiteSpace x) \<and>
                   (\<forall>x \<in> set r. isWhiteSpace x)"
    by (rule trim_decompose)
next
  fix t :: string
  assume "trim t \<noteq> []"
  then show "\<not> isWhiteSpace (hd (trim t))" "\<not> isWhiteSpace (last (trim t))"
    by (simp_all add: trim_ends)
next
  assume "choices c = None \<or> choices c = Some [] \<or>
          (\<exists>rest. choices c = Some (Choice None # rest)) \<or>
          (\<exists>rest. choices c = Some (Choice (Some (Message None)) # rest)) \<or>
          (\<exists>rest. choices c = Some (Choice (Some (Message (Some []))) # rest))"
  then show "answer_of c = []"
    by (auto simp: answer_of_def trim_def)
qed

text \<open>C7, witness: a provider that pads its answer with spaces, and one that returns no
  choices.\<close>

theorem answer_from_first_choice_witness:
  "contract (paid_upload ''lease.txt'') = Some (''lease.txt'', term_bytes) \<and>
   basename ''lease.txt'' \<noteq> [] \<and>
   \<not> no_question (form (paid_upload ''lease.txt'') ''question'') \<and>
   payment_required (paidSessions paid_server) (form (paid_upload ''lease.txt'') ''sessionId'')
     = Inr False \<and>
   some_string (OPENAI_API_KEY sample_world) \<and>
   to_string (form (paid_upload ''lease.txt'') ''question'') = Inr ''What is the term?'' \<and>
   chat_create sample_world (completion_params ''Term'' ''What is the term?'')
     = Some sample_completion \<and>
   fst (snd (post_query sample_world paid_server (Multipart (paid_upload ''lease.txt''))))
     = Sent \<lparr>status = 200, json = Answer ''12 months.''\<rparr> \<and>
   chat_create silent_world (completion_params ''Term'' ''What is the term?'')
     = Some (Completion (Some [])) \<and>
   fst (snd (post_query silent_world paid_server (Multipart (paid_upload ''lease.txt''))))
     = Sent \<lparr>status = 200, json = Answer []\<rparr>"
proof -
  let ?mp = "paid_upload ''lease.txt''"
  have n: "basename ''lease.txt'' \<noteq> []" by (simp add: basename_samples)
  have tw: "tmp_path silent_world = tmp_path sample_world" "utf8 silent_world = utf8 sample_world"
    "OPENAI_API_KEY silent_world = OPENAI_API_KEY sample_world"
    by (simp_all add: silent_world_def)
  have x: "extractText sample_world ((disk paid_server)(tmp_path sample_world \<mapsto> term_bytes))
             \<lparr>originalname = basename ''lease.txt'', path = tmp_path sample_world\<rparr>
           = (Inr ''Term'', [ReadFile (tmp_path sample_world)])"
    by (simp add: extractText_present basename_samples sample_extensions sample_world_facts(3))
  have x': "extractText silent_world ((disk paid_server)(tmp_path silent_world \<mapsto> term_bytes))
             \<lparr>originalname = basename ''lease.txt'', path = tmp_path silent_world\<rparr>
           = (Inr ''Term'', [ReadFile (tmp_path silent_world)])"
    by (simp add: extractText_present basename_samples sample_extensions sample_world_facts(3) tw)
  have k: "some_string (OPENAI_API_KEY silent_world)"
    by (simp add: tw sample_world_facts(2))
  have c: "chat_create sample_world (completion_params ''Term'' ''What is the term?'')
             = Some sample_completion"
    "chat_create silent_world (completion_params ''Term'' ''What is the term?'')
       = Some (Completion (Some []))"
    by (simp_all add: sample_world_def silent_world_def sample_completion_def)
  have tr: "trim '' 12 months. '' = ''12 months.''" by code_simp
  have ch: "choices sample_completion = Some (Choice (Some (Message (Some '' 12 months. ''))) # [])"
    "choices (Completion (Some [])) = Some []"
    by (simp_all add: sample_completion_def)
  note a = answer_from_first_choice
    [OF paid_upload_facts(1) n paid_upload_facts(2) paid_upload_facts(4) x
        sample_world_facts(2) paid_upload_facts(3) c(1)]
  note b = answer_from_first_choice
    [OF paid_upload_facts(1) n paid_upload_facts(2) paid_upload_facts(4) x'
        k paid_upload_facts(3) c(2)]
  from a ch(1) tr have a1: "answer_of sample_completion = ''12 months.''" by metis
  from b ch(2) have b1: "answer_of (Completion (Some [])) = []" by blast
  from a a1 have a2: "fst (snd (post_query sample_world paid_server (Multipart ?mp)))
     = Sent \<lparr>status = 200, json = Answer ''12 months.''\<rparr>" by simp
  from b b1 have b2: "fst (snd (post_query silent_world paid_server (Multipart ?mp)))
     = Sent \<lparr>status = 200, json = Answer []\<rparr>" by simp
  show ?thesis
    by (intro conjI) (rule paid_upload_facts n sample_world_facts(2) c a2 b2)+
qed

end
